theory Spec2Isabelle
  imports Complex_Main
begin

section \<open>Python values\<close>

text \<open>
  The client of \<^verbatim>\<open>API_Integration_Workday.py\<close> moves JSON-like Python values between
  the caller's dictionaries and the vendor's wire format. A value is one of Python's
  \<^verbatim>\<open>None\<close>, \<^verbatim>\<open>bool\<close>, \<^verbatim>\<open>int\<close>, \<^verbatim>\<open>float\<close>, \<^verbatim>\<open>str\<close>, \<^verbatim>\<open>list\<close>, \<^verbatim>\<open>dict\<close> (with string keys)
  or a \<^verbatim>\<open>datetime\<close>. A dictionary is an association list in insertion order, a key
  is looked up with \<open>map_of\<close>. A finite float is carried as the real number it denotes,
  the infinities and the not-a-number are values of their own (\<open>PInf True\<close> is
  \<^verbatim>\<open>float('inf')\<close>); the one float operation of the client, an addition, is rounded as
  IEEE 754 doubles are. A naive \<^verbatim>\<open>datetime\<close> is carried as its POSIX timestamp. Strings
  are byte strings.
\<close>

datatype pyval =
    PNone
  | PBool bool
  | PInt int
  | PFloat real
  | PStr string
  | PList "pyval list"
  | PDict "(string \<times> pyval) list"
  | PDateTime real
  | PInf bool
  | PNaN

type_synonym pydict = "(string \<times> pyval) list"

text \<open>Truth value testing, as \<^verbatim>\<open>if x\<close> and \<^verbatim>\<open>x and y\<close> do it.\<close>

fun truthy :: "pyval \<Rightarrow> bool" where
  "truthy PNone = False"
| "truthy (PBool b) = b"
| "truthy (PInt i) = (i \<noteq> 0)"
| "truthy (PFloat x) = (x \<noteq> 0)"
| "truthy (PStr s) = (s \<noteq> [])"
| "truthy (PList xs) = (xs \<noteq> [])"
| "truthy (PDict kvs) = (kvs \<noteq> [])"
| "truthy (PDateTime t) = True"
| "truthy (PInf positive) = True"
| "truthy PNaN = True"

section \<open>The HTTP transport and exceptions\<close>

text \<open>
  What \<^verbatim>\<open>requests\<close> hands back. A response has a status code, a reason phrase, the
  URL it came from, the body text and the outcome of \<^verbatim>\<open>response.json()\<close>: the parsed
  value, or the decoder's message when the body is not JSON.
\<close>

record response =
  status :: nat
  reason :: string
  resp_url :: string
  body_text :: string
  json_body :: "string + pyval"

text \<open>
  The exceptions that can leave the client. \<open>RequestException\<close> stands for
  \<^verbatim>\<open>requests.RequestException\<close> and all its subclasses, with \<^verbatim>\<open>str(e)\<close> and
  \<^verbatim>\<open>e.response\<close>; \<open>PyException\<close> is the plain \<^verbatim>\<open>Exception(msg)\<close> the client raises
  itself; the others are the built-in exceptions of failed lookups and operations,
  with the key or a short description.
\<close>

datatype py_exc =
    RequestException string "response option"
  | PyException string
  | KeyError string
  | TypeError string
  | AttributeError string
  | OverflowError string

text \<open>The name of the class of the exception object, \<^verbatim>\<open>type(e).__name__\<close>.\<close>

fun exc_type_name :: "py_exc \<Rightarrow> string" where
  "exc_type_name (RequestException m r) = ''RequestException''"
| "exc_type_name (PyException m) = ''Exception''"
| "exc_type_name (KeyError k) = ''KeyError''"
| "exc_type_name (TypeError m) = ''TypeError''"
| "exc_type_name (AttributeError m) = ''AttributeError''"
| "exc_type_name (OverflowError m) = ''OverflowError''"

text \<open>Sequencing of computations that may raise: the first exception wins.\<close>

fun and_then :: "py_exc + 'a \<Rightarrow> ('a \<Rightarrow> py_exc + 'b) \<Rightarrow> py_exc + 'b" where
  "and_then (Inl e) f = Inl e"
| "and_then (Inr v) f = f v"

section \<open>Dictionary access\<close>

text \<open>\<^verbatim>\<open>d[k]\<close> on a dictionary raises \<^verbatim>\<open>KeyError(k)\<close> when the key is absent.\<close>

definition getitem :: "pydict \<Rightarrow> string \<Rightarrow> py_exc + pyval" where
  "getitem d k = (case map_of d k of None \<Rightarrow> Inl (KeyError k) | Some v \<Rightarrow> Inr v)"

text \<open>\<^verbatim>\<open>d.get(k, default)\<close> never raises on a dictionary.\<close>

definition get_default :: "pydict \<Rightarrow> string \<Rightarrow> pyval \<Rightarrow> pyval" where
  "get_default d k dflt = (case map_of d k of None \<Rightarrow> dflt | Some v \<Rightarrow> v)"

text \<open>
  \<^verbatim>\<open>v[k]\<close> with a string key on an arbitrary value (the parsed token response):
  only a dictionary can be subscripted with a string.
\<close>

fun py_getitem :: "pyval \<Rightarrow> string \<Rightarrow> py_exc + pyval" where
  "py_getitem (PDict d) k = getitem d k"
| "py_getitem v k = Inl (TypeError ''subscript'')"

text \<open>
  Iteration, as \<^verbatim>\<open>enumerate(v)\<close> consumes it: a list yields its elements, a dictionary
  its keys, a string its characters; nothing else is iterable.
\<close>

fun py_iter :: "pyval \<Rightarrow> py_exc + pyval list" where
  "py_iter (PList xs) = Inr xs"
| "py_iter (PDict kvs) = Inr (map (\<lambda>kv. PStr (fst kv)) kvs)"
| "py_iter (PStr s) = Inr (map (\<lambda>c. PStr [c]) s)"
| "py_iter v = Inl (TypeError ''not iterable'')"

section \<open>Payload formatting\<close>

text \<open>
  One element of the list comprehension of \<^verbatim>\<open>create_invoice\<close> (source lines 93 to 103),
  for the item at index \<open>idx\<close> of \<^verbatim>\<open>enumerate\<close>. The first access to the item is
  \<^verbatim>\<open>item.get\<close>, which only a dictionary has; \<^verbatim>\<open>item["amount"]\<close> is the one required key.
  The currency is read from the invoice, never from the item.
\<close>

fun invoice_line :: "pydict \<Rightarrow> nat \<Rightarrow> pyval \<Rightarrow> py_exc + pyval" where
  "invoice_line invoice_data idx (PDict item) =
     and_then (getitem item ''amount'') (\<lambda>amount.
       Inr (PDict
         [(''lineNumber'', PInt (int idx + 1)),
          (''itemDescription'', get_default item ''description'' (PStr [])),
          (''amount'', PDict
             [(''amount'', amount),
              (''currency'', get_default invoice_data ''currency'' (PStr ''USD''))]),
          (''costCenter'', get_default item ''cost_center'' (PStr [])),
          (''projectReference'', get_default item ''project_id'' (PStr [])),
          (''accountCategory'', get_default item ''account_category'' (PStr []))]))"
| "invoice_line invoice_data idx item = Inl (AttributeError ''get'')"

text \<open>The comprehension itself: items in input order, the index counting up from \<open>idx\<close>.\<close>

fun invoice_lines :: "pydict \<Rightarrow> nat \<Rightarrow> pyval list \<Rightarrow> py_exc + pyval list" where
  "invoice_lines invoice_data idx [] = Inr []"
| "invoice_lines invoice_data idx (item # rest) =
     and_then (invoice_line invoice_data idx item) (\<lambda>line.
     and_then (invoice_lines invoice_data (Suc idx) rest) (\<lambda>lines.
       Inr (line # lines)))"

text \<open>
  The dictionary display \<^verbatim>\<open>formatted_invoice\<close> (source lines 83 to 106). Python evaluates
  the entries top to bottom, so the first missing required key is the one reported.
\<close>

definition formatted_invoice :: "pydict \<Rightarrow> py_exc + pyval" where
  "formatted_invoice invoice_data =
     and_then (getitem invoice_data ''supplier_id'') (\<lambda>supplier_id.
     and_then (getitem invoice_data ''invoice_number'') (\<lambda>invoice_number.
     and_then (getitem invoice_data ''invoice_date'') (\<lambda>invoice_date.
     and_then (getitem invoice_data ''total_amount'') (\<lambda>total_amount.
     and_then (getitem invoice_data ''line_items'') (\<lambda>line_items.
     and_then (py_iter line_items) (\<lambda>items.
     and_then (invoice_lines invoice_data 0 items) (\<lambda>lines.
       Inr (PDict
         [(''supplierReference'', supplier_id),
          (''invoiceNumber'', invoice_number),
          (''invoiceDate'', invoice_date),
          (''invoiceDescription'', get_default invoice_data ''description'' (PStr [])),
          (''invoiceTotal'', PDict
             [(''amount'', total_amount),
              (''currency'', get_default invoice_data ''currency'' (PStr ''USD''))]),
          (''invoiceLines'', PList lines)]))))))))"

text \<open>The dictionary display \<^verbatim>\<open>formatted_payment\<close> (source lines 167 to 175).\<close>

definition formatted_payment :: "pydict \<Rightarrow> py_exc + pyval" where
  "formatted_payment payment_data =
     and_then (getitem payment_data ''payment_date'') (\<lambda>payment_date.
     and_then (getitem payment_data ''payment_method'') (\<lambda>payment_method.
     and_then (getitem payment_data ''amount'') (\<lambda>amount.
       Inr (PDict
         [(''paymentDate'', payment_date),
          (''paymentMethod'', payment_method),
          (''paymentAmount'', PDict
             [(''amount'', amount),
              (''currency'', get_default payment_data ''currency'' (PStr ''USD''))]),
          (''paymentReference'', get_default payment_data ''reference'' (PStr []))]))))"

section \<open>Library functions the client calls\<close>

text \<open>
  \<^verbatim>\<open>base64.b64encode\<close> on the bytes of a string: three bytes become four digits of the
  standard alphabet, the last group is padded with \<^verbatim>\<open>=\<close>.
\<close>

definition b64_alphabet :: string where
  "b64_alphabet = ''ABCDEFGHIJKLMNOPQRSTUVWXYZabcdefghijklmnopqrstuvwxyz0123456789+/''"

definition b64_digit :: "nat \<Rightarrow> char" where
  "b64_digit n = b64_alphabet ! (n mod 64)"

fun b64_groups :: "nat list \<Rightarrow> string" where
  "b64_groups (a # b # c # rest) =
     [b64_digit (a div 4), b64_digit ((a mod 4) * 16 + b div 16),
      b64_digit ((b mod 16) * 4 + c div 64), b64_digit (c mod 64)] @ b64_groups rest"
| "b64_groups [a, b] =
     [b64_digit (a div 4), b64_digit ((a mod 4) * 16 + b div 16),
      b64_digit ((b mod 16) * 4), CHR ''='']"
| "b64_groups [a] =
     [b64_digit (a div 4), b64_digit ((a mod 4) * 16), CHR ''='', CHR ''='']"
| "b64_groups [] = []"

definition b64encode :: "string \<Rightarrow> string" where
  "b64encode s = b64_groups (map of_char s)"

text \<open>Decimal digits of a status code, as the f-string of \<^verbatim>\<open>raise_for_status\<close> prints it.\<close>

fun str_nat :: "nat \<Rightarrow> string" where
  "str_nat n =
     (if n < 10 then [char_of (48 + n)]
      else str_nat (n div 10) @ [char_of (48 + n mod 10)])"

declare str_nat.simps [simp del]

text \<open>
  \<^verbatim>\<open>Response.raise_for_status\<close> of \<^verbatim>\<open>requests\<close>: an \<^verbatim>\<open>HTTPError\<close> (a
  \<^verbatim>\<open>RequestException\<close>) carrying the response for a status from 400 to 599, nothing
  for any other status. \<^verbatim>\<open>Response.ok\<close>, which is also the truth value of a response
  object, is whether \<^verbatim>\<open>raise_for_status\<close> passes.
\<close>

definition raise_for_status :: "response \<Rightarrow> py_exc + unit" where
  "raise_for_status r =
     (if 400 \<le> status r \<and> status r < 500 then
        Inl (RequestException
          (str_nat (status r) @ '' Client Error: '' @ reason r @ '' for url: '' @ resp_url r)
          (Some r))
      else if 500 \<le> status r \<and> status r < 600 then
        Inl (RequestException
          (str_nat (status r) @ '' Server Error: '' @ reason r @ '' for url: '' @ resp_url r)
          (Some r))
      else Inr ())"

definition ok :: "response \<Rightarrow> bool" where
  "ok r = (case raise_for_status r of Inl e \<Rightarrow> False | Inr u \<Rightarrow> True)"

text \<open>
  \<^verbatim>\<open>Response.json\<close>: the parsed body, or \<^verbatim>\<open>requests.exceptions.JSONDecodeError\<close>, which
  is a \<^verbatim>\<open>RequestException\<close> without a response (requests 2.27 and later).
\<close>

definition response_json :: "response \<Rightarrow> py_exc + pyval" where
  "response_json r =
     (case json_body r of
        Inl msg \<Rightarrow> Inl (RequestException msg None)
      | Inr v \<Rightarrow> Inr v)"

text \<open>
  Python floats are IEEE 754 doubles. \<open>round_double x\<close> is the double nearest to the
  real number \<open>x\<close>, ties going to the even significand: the unit in the last place of
  \<open>x\<close> is \<open>2\<close> to the power \<open>binary_exponent x - 52\<close> (a significand of 53 bits), and
  not below \<open>- 1074\<close> (the subnormal numbers). A rounded magnitude of \<open>2 ^ 1024\<close> or
  more is out of the range of the doubles.
\<close>

function bit_length :: "int \<Rightarrow> nat" where
  "bit_length n = (if n \<le> 0 then 0 else Suc (bit_length (n div 2)))"
  by pat_completeness auto
termination
  by (relation "measure nat") auto

declare bit_length.simps [simp del]

text \<open>The integer part of the binary logarithm of \<open>\<bar>x\<bar>\<close>, for \<open>x\<close> other than zero.\<close>

definition binary_exponent :: "real \<Rightarrow> int" where
  "binary_exponent x =
     (if 1 \<le> \<bar>x\<bar> then int (bit_length \<lfloor>\<bar>x\<bar>\<rfloor>) - 1
      else - int (bit_length (\<lceil>1 / \<bar>x\<bar>\<rceil> - 1)))"

definition round_half_even :: "real \<Rightarrow> int" where
  "round_half_even q =
     (if q - of_int \<lfloor>q\<rfloor> < 1 / 2 then \<lfloor>q\<rfloor>
      else if 1 / 2 < q - of_int \<lfloor>q\<rfloor> then \<lfloor>q\<rfloor> + 1
      else if even \<lfloor>q\<rfloor> then \<lfloor>q\<rfloor> else \<lfloor>q\<rfloor> + 1)"

definition scale2 :: "int \<Rightarrow> real" where
  "scale2 e = (if 0 \<le> e then 2 ^ nat e else 1 / 2 ^ nat (- e))"

definition round_double :: "real \<Rightarrow> real" where
  "round_double x =
     (if x = 0 then 0
      else of_int (round_half_even (x / scale2 (max (binary_exponent x - 52) (- 1074))))
             * scale2 (max (binary_exponent x - 52) (- 1074)))"

definition out_of_range :: "real \<Rightarrow> bool" where
  "out_of_range y = (2 ^ 1024 \<le> \<bar>y\<bar>)"

text \<open>The float that a float operation with the exact result \<open>x\<close> returns.\<close>

definition float_result :: "real \<Rightarrow> pyval" where
  "float_result x =
     (if out_of_range (round_double x) then PInf (0 < x) else PFloat (round_double x))"

text \<open>
  \<^verbatim>\<open>datetime.now().timestamp() + v\<close> with the float \<open>t\<close> that \<^verbatim>\<open>timestamp()\<close> returns.
  An int is converted to the nearest double first, which raises \<^verbatim>\<open>OverflowError\<close> when
  it is out of range; a bool counts as 1 or 0; the sum of two finite floats is rounded
  and is an infinity when out of range; a finite float plus an infinity or a
  not-a-number is that value; anything else is a \<^verbatim>\<open>TypeError\<close>.
\<close>

fun add_timestamp :: "real \<Rightarrow> pyval \<Rightarrow> py_exc + pyval" where
  "add_timestamp t (PInt i) =
     (if out_of_range (round_double (of_int i))
      then Inl (OverflowError ''int too large to convert to float'')
      else Inr (float_result (t + round_double (of_int i))))"
| "add_timestamp t (PFloat x) = Inr (float_result (t + x))"
| "add_timestamp t (PBool b) = Inr (float_result (t + (if b then 1 else 0)))"
| "add_timestamp t (PInf positive) = Inr (PInf positive)"
| "add_timestamp t PNaN = Inr PNaN"
| "add_timestamp t v = Inl (TypeError ''+'')"

text \<open>
  The body of a request made with \<^verbatim>\<open>json=payload\<close> is \<^verbatim>\<open>json.dumps(payload, allow_nan=False)\<close>.
  The encoder walks the payload in order and stops at the first value it cannot
  encode. At a \<^verbatim>\<open>datetime\<close> it raises \<^verbatim>\<open>TypeError\<close>, which leaves \<^verbatim>\<open>requests\<close> as it is;
  at an infinity or a not-a-number it raises \<^verbatim>\<open>ValueError\<close>, which \<^verbatim>\<open>requests\<close> turns
  into an \<^verbatim>\<open>InvalidJSONError\<close>, one of its \<^verbatim>\<open>RequestException\<close>s.
\<close>

fun leaves :: "pyval \<Rightarrow> pyval list" where
  "leaves (PList xs) = concat (map leaves xs)"
| "leaves (PDict kvs) = concat (map (\<lambda>kv. leaves (snd kv)) kvs)"
| "leaves v = [v]"

fun unencodable :: "pyval \<Rightarrow> bool" where
  "unencodable (PDateTime t) = True"
| "unencodable (PInf positive) = True"
| "unencodable PNaN = True"
| "unencodable v = False"

definition json_type_error :: "pyval \<Rightarrow> bool" where
  "json_type_error payload =
     (case find unencodable (leaves payload) of Some (PDateTime t) \<Rightarrow> True | _ \<Rightarrow> False)"

text \<open>
  \<^verbatim>\<open>v > datetime.now()\<close> with the clock reading \<open>now\<close>: only a \<^verbatim>\<open>datetime\<close> is ordered
  against a \<^verbatim>\<open>datetime\<close>; for any other left operand both \<^verbatim>\<open>__gt__\<close> and the reflected
  \<^verbatim>\<open>__lt__\<close> give \<^verbatim>\<open>NotImplemented\<close> and Python raises \<^verbatim>\<open>TypeError\<close>.
\<close>

fun gt_now :: "pyval \<Rightarrow> real \<Rightarrow> py_exc + bool" where
  "gt_now (PDateTime t) now = Inr (now < t)"
| "gt_now v now = Inl (TypeError ''>'')"

section \<open>The world outside the client\<close>

datatype http_method = POST | GET | PUT

datatype payload = NoBody | FormBody "(string \<times> string) list" | JsonBody pyval

record request =
  meth :: http_method
  url :: string
  headers :: "(string \<times> string) list"
  req_body :: payload

text \<open>
  A call of \<^verbatim>\<open>requests.post\<close>, \<^verbatim>\<open>get\<close> or \<^verbatim>\<open>put\<close> either raises a \<^verbatim>\<open>RequestException\<close>
  (\<^verbatim>\<open>str(e)\<close> and \<^verbatim>\<open>e.response\<close>) or returns a response. The exceptions include those
  that \<^verbatim>\<open>requests\<close> raises before anything is sent, such as \<^verbatim>\<open>InvalidHeader\<close> and
  \<^verbatim>\<open>InvalidJSONError\<close>.
\<close>

datatype http_result = Raises string "response option" | Responds response

text \<open>
  The environment is a parameter: \<open>respond\<close> is the network and the server, which see
  every request sent so far (the last one being the current request) and answer with
  the seconds the call took and its outcome; \<open>str_other\<close> is Python's \<^verbatim>\<open>str()\<close> on
  values that are not strings.
\<close>

record env =
  respond :: "request list \<Rightarrow> real \<times> http_result"
  str_other :: "pyval \<Rightarrow> string"

datatype level = INFO | ERROR

text \<open>
  The observable state: the wall clock (the float that \<^verbatim>\<open>datetime.now().timestamp()\<close>
  returns), the requests handed to \<^verbatim>\<open>requests\<close> so far, and the records written through
  \<^verbatim>\<open>logger\<close>.
\<close>

record world =
  clock :: real
  sent :: "request list"
  log_records :: "(level \<times> string) list"

definition send :: "env \<Rightarrow> request \<Rightarrow> world \<Rightarrow> http_result \<times> world" where
  "send E req w =
     (let trace = sent w @ [req]
      in (snd (respond E trace), w\<lparr>clock := clock w + fst (respond E trace), sent := trace\<rparr>))"

definition logger :: "level \<Rightarrow> string \<Rightarrow> world \<Rightarrow> world" where
  "logger l msg w = w\<lparr>log_records := log_records w @ [(l, msg)]\<rparr>"

text \<open>A replacement field \<^verbatim>\<open>{v}\<close> of an f-string: a string is inserted as it is.\<close>

definition py_str :: "env \<Rightarrow> pyval \<Rightarrow> string" where
  "py_str E v = (case v of PStr s \<Rightarrow> s | _ \<Rightarrow> str_other E v)"

section \<open>The client\<close>

record client =
  tenant_url :: string
  client_id :: string
  client_secret :: string
  token :: pyval
  token_expiry :: pyval

definition WorkdayAPIntegration :: "string \<Rightarrow> string \<Rightarrow> string \<Rightarrow> client" where
  "WorkdayAPIntegration tenant cid secret =
     \<lparr>tenant_url = tenant, client_id = cid, client_secret = secret,
      token = PNone, token_expiry = PNone\<rparr>"

type_synonym 'a outcome = "(py_exc + 'a) \<times> client \<times> world"

subsection \<open>get_auth_token\<close>

text \<open>
  The guard of source line 33,
  \<^verbatim>\<open>self.token and self.token_expiry and self.token_expiry > datetime.now()\<close>:
  the comparison is evaluated only when both fields are truthy.
\<close>

definition token_cached :: "client \<Rightarrow> world \<Rightarrow> py_exc + bool" where
  "token_cached c w =
     (if truthy (token c) \<and> truthy (token_expiry c)
      then gt_now (token_expiry c) (clock w)
      else Inr False)"

definition token_request :: "client \<Rightarrow> request" where
  "token_request c =
     \<lparr>meth = POST,
      url = tenant_url c @ ''/ccx/oauth2/token'',
      headers =
        [(''Authorization'', ''Basic '' @ b64encode (client_id c @ '':'' @ client_secret c)),
         (''Content-Type'', ''application/x-www-form-urlencoded'')],
      req_body = FormBody [(''grant_type'', ''client_credentials''), (''scope'', ''workday_api'')]\<rparr>"

text \<open>
  The body of the \<^verbatim>\<open>try\<close> (source lines 50 to 58). \<^verbatim>\<open>self.token\<close> is assigned before
  \<^verbatim>\<open>expires_in\<close> is read and added.
\<close>

definition auth_try :: "env \<Rightarrow> client \<Rightarrow> world \<Rightarrow> pyval outcome" where
  "auth_try E c w =
     (case send E (token_request c) w of
        (Raises m r, w1) \<Rightarrow> (Inl (RequestException m r), c, w1)
      | (Responds resp, w1) \<Rightarrow>
          (case and_then (raise_for_status resp) (\<lambda>u. response_json resp) of
             Inl e \<Rightarrow> (Inl e, c, w1)
           | Inr token_data \<Rightarrow>
               (case py_getitem token_data ''access_token'' of
                  Inl e \<Rightarrow> (Inl e, c, w1)
                | Inr tok \<Rightarrow>
                    (case and_then (py_getitem token_data ''expires_in'')
                            (add_timestamp (clock w1)) of
                       Inl e \<Rightarrow> (Inl e, c\<lparr>token := tok\<rparr>, w1)
                     | Inr expiry \<Rightarrow>
                         (Inr tok, c\<lparr>token := tok, token_expiry := expiry\<rparr>, w1)))))"

text \<open>
  \<^verbatim>\<open>get_auth_token\<close> (source lines 31 to 61): the cached token when the guard holds,
  otherwise the \<^verbatim>\<open>try\<close> with its handler for \<^verbatim>\<open>requests.RequestException\<close>, which logs
  and raises a plain \<^verbatim>\<open>Exception\<close>. Any other exception passes through.
\<close>

definition get_auth_token :: "env \<Rightarrow> client \<Rightarrow> world \<Rightarrow> pyval outcome" where
  "get_auth_token E c w =
     (case token_cached c w of
        Inl e \<Rightarrow> (Inl e, c, w)
      | Inr True \<Rightarrow> (Inr (token c), c, w)
      | Inr False \<Rightarrow>
          (case auth_try E c w of
             (Inl (RequestException m r), c1, w1) \<Rightarrow>
               (Inl (PyException (''Failed to authenticate with Workday: '' @ m)), c1,
                logger ERROR (''Authentication error: '' @ m) w1)
           | res \<Rightarrow> res))"

subsection \<open>create_invoice\<close>

definition invoices_url :: "client \<Rightarrow> string" where
  "invoices_url c = tenant_url c @ ''/api/v1/financial-management/suppliers/invoices''"

definition create_request :: "env \<Rightarrow> client \<Rightarrow> pyval \<Rightarrow> pyval \<Rightarrow> request" where
  "create_request E c tok formatted =
     \<lparr>meth = POST,
      url = invoices_url c,
      headers =
        [(''Authorization'', ''Bearer '' @ py_str E tok),
         (''Content-Type'', ''application/json''),
         (''Accept'', ''application/json'')],
      req_body = JsonBody formatted\<rparr>"

text \<open>
  The body of the \<^verbatim>\<open>try\<close> (source lines 109 to 114). \<^verbatim>\<open>requests.post\<close> raises the
  \<^verbatim>\<open>TypeError\<close> of a payload that cannot be encoded before it sends anything.
\<close>

definition create_try ::
  "env \<Rightarrow> client \<Rightarrow> pyval \<Rightarrow> pydict \<Rightarrow> pyval \<Rightarrow> world \<Rightarrow> (py_exc + pyval) \<times> world" where
  "create_try E c tok invoice_data formatted w =
     (if json_type_error formatted then (Inl (TypeError ''not JSON serializable''), w)
      else
        (case send E (create_request E c tok formatted) w of
           (Raises m r, w1) \<Rightarrow> (Inl (RequestException m r), w1)
         | (Responds resp, w1) \<Rightarrow>
             (case and_then (raise_for_status resp) (\<lambda>u. response_json resp) of
                Inl e \<Rightarrow> (Inl e, w1)
              | Inr result \<Rightarrow>
                  (case getitem invoice_data ''invoice_number'' of
                     Inl e \<Rightarrow> (Inl e, w1)
                   | Inr number \<Rightarrow>
                       (Inr result,
                        logger INFO
                          (''Successfully created invoice '' @ py_str E number @ '' in Workday'')
                          w1)))))"

text \<open>
  The handler (source lines 115 to 119). \<^verbatim>\<open>e.response\<close> is tested for truth, and a
  response object is true when it is \<^verbatim>\<open>ok\<close>.
\<close>

definition create_except :: "string \<Rightarrow> response option \<Rightarrow> world \<Rightarrow> py_exc \<times> world" where
  "create_except m r w =
     (let w1 = logger ERROR (''Error creating invoice: '' @ m) w;
          w2 = (case r of
                  None \<Rightarrow> w1
                | Some resp \<Rightarrow>
                    if ok resp then logger ERROR (''Response: '' @ body_text resp) w1 else w1)
      in (PyException (''Failed to create invoice in Workday: '' @ m), w2))"

text \<open>
  \<^verbatim>\<open>create_invoice\<close> (source lines 73 to 119): the token first, then the headers and the
  payload, then the request.
\<close>

definition create_invoice :: "env \<Rightarrow> client \<Rightarrow> pydict \<Rightarrow> world \<Rightarrow> pyval outcome" where
  "create_invoice E c invoice_data w =
     (case get_auth_token E c w of
        (Inl e, c1, w1) \<Rightarrow> (Inl e, c1, w1)
      | (Inr tok, c1, w1) \<Rightarrow>
          (case formatted_invoice invoice_data of
             Inl e \<Rightarrow> (Inl e, c1, w1)
           | Inr formatted \<Rightarrow>
               (case create_try E c1 tok invoice_data formatted w1 of
                  (Inl (RequestException m r), w2) \<Rightarrow>
                    (Inl (fst (create_except m r w2)), c1, snd (create_except m r w2))
                | (res, w2) \<Rightarrow> (res, c1, w2))))"

subsection \<open>get_invoice_status\<close>

definition status_request :: "env \<Rightarrow> client \<Rightarrow> pyval \<Rightarrow> pyval \<Rightarrow> request" where
  "status_request E c tok invoice_id =
     \<lparr>meth = GET,
      url = invoices_url c @ ''/'' @ py_str E invoice_id,
      headers =
        [(''Authorization'', ''Bearer '' @ py_str E tok),
         (''Accept'', ''application/json'')],
      req_body = NoBody\<rparr>"

definition status_try ::
  "env \<Rightarrow> client \<Rightarrow> pyval \<Rightarrow> pyval \<Rightarrow> world \<Rightarrow> (py_exc + pyval) \<times> world" where
  "status_try E c tok invoice_id w =
     (case send E (status_request E c tok invoice_id) w of
        (Raises m r, w1) \<Rightarrow> (Inl (RequestException m r), w1)
      | (Responds resp, w1) \<Rightarrow>
          (and_then (raise_for_status resp) (\<lambda>u. response_json resp), w1))"

text \<open>\<^verbatim>\<open>get_invoice_status\<close> (source lines 131 to 145).\<close>

definition get_invoice_status :: "env \<Rightarrow> client \<Rightarrow> pyval \<Rightarrow> world \<Rightarrow> pyval outcome" where
  "get_invoice_status E c invoice_id w =
     (case get_auth_token E c w of
        (Inl e, c1, w1) \<Rightarrow> (Inl e, c1, w1)
      | (Inr tok, c1, w1) \<Rightarrow>
          (case status_try E c1 tok invoice_id w1 of
             (Inl (RequestException m r), w2) \<Rightarrow>
               (Inl (PyException (''Failed to get invoice status from Workday: '' @ m)), c1,
                logger ERROR (''Error getting invoice status: '' @ m) w2)
           | (res, w2) \<Rightarrow> (res, c1, w2)))"

subsection \<open>update_invoice_payment\<close>

definition payment_request :: "env \<Rightarrow> client \<Rightarrow> pyval \<Rightarrow> pyval \<Rightarrow> pyval \<Rightarrow> request" where
  "payment_request E c tok invoice_id formatted =
     \<lparr>meth = PUT,
      url = invoices_url c @ ''/'' @ py_str E invoice_id @ ''/payments'',
      headers =
        [(''Authorization'', ''Bearer '' @ py_str E tok),
         (''Content-Type'', ''application/json''),
         (''Accept'', ''application/json'')],
      req_body = JsonBody formatted\<rparr>"

text \<open>
  The body of the \<^verbatim>\<open>try\<close> (source lines 178 to 182): \<^verbatim>\<open>requests.put\<close> raises the
  \<^verbatim>\<open>TypeError\<close> of a payload that cannot be encoded; the success record is written after
  \<^verbatim>\<open>raise_for_status\<close> and before the body is parsed.
\<close>

definition payment_try ::
  "env \<Rightarrow> client \<Rightarrow> pyval \<Rightarrow> pyval \<Rightarrow> pyval \<Rightarrow> world \<Rightarrow> (py_exc + pyval) \<times> world" where
  "payment_try E c tok invoice_id formatted w =
     (if json_type_error formatted then (Inl (TypeError ''not JSON serializable''), w)
      else
        (case send E (payment_request E c tok invoice_id formatted) w of
           (Raises m r, w1) \<Rightarrow> (Inl (RequestException m r), w1)
         | (Responds resp, w1) \<Rightarrow>
             (case raise_for_status resp of
                Inl e \<Rightarrow> (Inl e, w1)
              | Inr u \<Rightarrow>
                  (response_json resp,
                   logger INFO
                     (''Successfully updated payment for invoice '' @ py_str E invoice_id)
                     w1))))"

text \<open>\<^verbatim>\<open>update_invoice_payment\<close> (source lines 158 to 185).\<close>

definition update_invoice_payment ::
  "env \<Rightarrow> client \<Rightarrow> pyval \<Rightarrow> pydict \<Rightarrow> world \<Rightarrow> pyval outcome" where
  "update_invoice_payment E c invoice_id payment_data w =
     (case get_auth_token E c w of
        (Inl e, c1, w1) \<Rightarrow> (Inl e, c1, w1)
      | (Inr tok, c1, w1) \<Rightarrow>
          (case formatted_payment payment_data of
             Inl e \<Rightarrow> (Inl e, c1, w1)
           | Inr formatted \<Rightarrow>
               (case payment_try E c1 tok invoice_id formatted w1 of
                  (Inl (RequestException m r), w2) \<Rightarrow>
                    (Inl (PyException (''Failed to update invoice payment in Workday: '' @ m)),
                     c1, logger ERROR (''Error updating payment: '' @ m) w2)
                | (res, w2) \<Rightarrow> (res, c1, w2))))"

section \<open>Notions the properties are stated with\<close>

text \<open>
  The keys the client reads with a subscript, in the order of the source: those of
  \<^verbatim>\<open>invoice_data\<close> (source lines 84 to 104) and of \<^verbatim>\<open>payment_data\<close> (lines 168 to 171).
\<close>

definition invoice_required :: "string list" where
  "invoice_required =
     [''supplier_id'', ''invoice_number'', ''invoice_date'', ''total_amount'', ''line_items'']"

definition payment_required :: "string list" where
  "payment_required = [''payment_date'', ''payment_method'', ''amount'']"

text \<open>
  The exception with which an HTTP call fails before its body is read: the one the call
  raises itself, or the one \<^verbatim>\<open>raise_for_status\<close> raises for the response.
\<close>

fun failure_cause :: "http_result \<Rightarrow> py_exc option" where
  "failure_cause (Raises m r) = Some (RequestException m r)"
| "failure_cause (Responds resp) =
     (case raise_for_status resp of Inl e \<Rightarrow> Some e | Inr u \<Rightarrow> None)"

text \<open>Reading a payload: the value under a key of a dictionary, and its keys in order.\<close>

fun field :: "string \<Rightarrow> pyval \<Rightarrow> pyval option" where
  "field k (PDict d) = map_of d k"
| "field k v = None"


text \<open>
  A valid invoice request in the words of the specification: supplier reference,
  invoice number, invoice date and total amount are present, the line items are a
  non-empty sequence, and each line item is a dictionary with an amount.
\<close>

fun valid_item :: "pyval \<Rightarrow> bool" where
  "valid_item (PDict item) = (map_of item ''amount'' \<noteq> None)"
| "valid_item v = False"

definition valid_invoice :: "pydict \<Rightarrow> bool" where
  "valid_invoice invoice_data =
     (map_of invoice_data ''supplier_id'' \<noteq> None \<and>
      map_of invoice_data ''invoice_number'' \<noteq> None \<and>
      map_of invoice_data ''invoice_date'' \<noteq> None \<and>
      map_of invoice_data ''total_amount'' \<noteq> None \<and>
      (case map_of invoice_data ''line_items'' of
         Some (PList items) \<Rightarrow> items \<noteq> [] \<and> list_all valid_item items
       | _ \<Rightarrow> False))"

text \<open>
  The field mapping of the specification (its section 6), written from its table:
  a required field is renamed, an optional field is renamed with its default, the
  line at position \<open>i\<close> gets the number \<open>i + 1\<close> and the currency of the invoice.
\<close>

definition required :: "pydict \<Rightarrow> string \<Rightarrow> pyval" where
  "required d k = the (map_of d k)"

definition optional :: "pydict \<Rightarrow> string \<Rightarrow> string \<Rightarrow> pyval" where
  "optional d k dflt = (if map_of d k = None then PStr dflt else the (map_of d k))"

fun wire_line :: "pyval \<Rightarrow> nat \<times> pyval \<Rightarrow> pyval" where
  "wire_line currency (i, PDict item) =
     PDict
       [(''lineNumber'', PInt (int i + 1)),
        (''itemDescription'', optional item ''description'' []),
        (''amount'', PDict [(''amount'', required item ''amount''), (''currency'', currency)]),
        (''costCenter'', optional item ''cost_center'' []),
        (''projectReference'', optional item ''project_id'' []),
        (''accountCategory'', optional item ''account_category'' [])]"
| "wire_line currency (i, v) = PNone"

definition wire_invoice :: "pydict \<Rightarrow> pyval" where
  "wire_invoice invoice_data =
     PDict
       [(''supplierReference'', required invoice_data ''supplier_id''),
        (''invoiceNumber'', required invoice_data ''invoice_number''),
        (''invoiceDate'', required invoice_data ''invoice_date''),
        (''invoiceDescription'', optional invoice_data ''description'' []),
        (''invoiceTotal'', PDict
           [(''amount'', required invoice_data ''total_amount''),
            (''currency'', optional invoice_data ''currency'' ''USD'')]),
        (''invoiceLines'', PList
           (case required invoice_data ''line_items'' of
              PList items \<Rightarrow>
                map (wire_line (optional invoice_data ''currency'' ''USD'')) (enumerate 0 items)
            | _ \<Rightarrow> []))]"

text \<open>The class name of the exception an operation raised, if it raised one.\<close>

definition raised_type :: "'a outcome \<Rightarrow> string option" where
  "raised_type out = (case fst out of Inl e \<Rightarrow> Some (exc_type_name e) | Inr v \<Rightarrow> None)"



text \<open>
  The text that the outcome of a call supplies: the messages of the exceptions it can
  give rise to (the one the call raises, the one \<^verbatim>\<open>raise_for_status\<close> raises for the
  response, the one \<^verbatim>\<open>response.json()\<close> raises for the body) and the body text of the
  response it carries.
\<close>

fun outcome_messages :: "http_result \<Rightarrow> string list" where
  "outcome_messages (Raises m r) = [m]"
| "outcome_messages (Responds resp) =
     (case raise_for_status resp of Inl (RequestException m r) \<Rightarrow> [m] | _ \<Rightarrow> [])
     @ (case json_body resp of Inl m \<Rightarrow> [m] | Inr v \<Rightarrow> [])"

fun outcome_bodies :: "http_result \<Rightarrow> string list" where
  "outcome_bodies (Raises m None) = []"
| "outcome_bodies (Raises m (Some resp)) = [body_text resp]"
| "outcome_bodies (Responds resp) = [body_text resp]"




text \<open>The status of the response a call returned, if it returned one.\<close>

fun answered_status :: "http_result \<Rightarrow> nat option" where
  "answered_status (Raises m r) = None"
| "answered_status (Responds resp) = Some (status resp)"

fun is_dict :: "pyval \<Rightarrow> bool" where
  "is_dict (PDict d) = True"
| "is_dict v = False"

section \<open>Concrete inputs\<close>

text \<open>
  A server that answers every request with status 200 after two seconds and the token
  document \<^verbatim>\<open>{"access_token": "tok", "expires_in": 3600}\<close>; a client as the constructor
  leaves it; a world whose clock reads 1000.
\<close>

definition demo_env :: env where
  "demo_env =
     \<lparr>respond = (\<lambda>reqs.
        (2, Responds \<lparr>status = 200, reason = ''OK'', resp_url = url (last reqs),
                      body_text = [],
                      json_body = Inr (PDict [(''access_token'', PStr ''tok''),
                                              (''expires_in'', PInt 3600)])\<rparr>)),
      str_other = (\<lambda>v. ''?'')\<rparr>"

definition demo_client :: client where
  "demo_client = WorkdayAPIntegration ''https://t.example.com'' ''id'' ''secret''"

definition demo_world :: world where
  "demo_world = \<lparr>clock = 1000, sent = [], log_records = []\<rparr>"

text \<open>The client and the world as the first \<^verbatim>\<open>get_auth_token\<close> leaves them.\<close>

definition fresh_client :: client where
  "fresh_client = demo_client\<lparr>token := PStr ''tok'', token_expiry := PFloat 4602\<rparr>"

definition fresh_world :: world where
  "fresh_world = demo_world\<lparr>clock := 1002, sent := [token_request demo_client]\<rparr>"

text \<open>The same world two hours later, when the token has expired.\<close>

definition stale_world :: world where
  "stale_world = fresh_world\<lparr>clock := 9000\<rparr>"

text \<open>A network that is down: every call raises a connection error after 30 seconds.\<close>

definition down_env :: env where
  "down_env = \<lparr>respond = (\<lambda>reqs. (30, Raises ''Connection refused'' None)),
               str_other = (\<lambda>v. ''?'')\<rparr>"

text \<open>A client holding a token without an expiry, so that the next call refreshes.\<close>

definition lapsed_client :: client where
  "lapsed_client = demo_client\<lparr>token := PStr ''old''\<rparr>"

text \<open>A response with status 401.\<close>

definition unauthorized :: response where
  "unauthorized =
     \<lparr>status = 401, reason = ''Unauthorized'',
      resp_url = ''https://t.example.com/ccx/oauth2/token'', body_text = ''denied'',
      json_body = Inl ''Expecting value''\<rparr>"

text \<open>An invoice request without \<^verbatim>\<open>supplier_id\<close>, a payment request without \<^verbatim>\<open>amount\<close>.\<close>

definition no_supplier :: pydict where
  "no_supplier = [(''invoice_number'', PStr ''INV-1''), (''invoice_date'', PStr ''2025-01-01'')]"

definition no_amount :: pydict where
  "no_amount = [(''payment_date'', PStr ''2025-03-15''), (''payment_method'', PStr ''ACH'')]"

text \<open>The request and the expected wire payload of the end-to-end scenario.\<close>

definition scenario_request :: pydict where
  "scenario_request =
     [(''supplier_id'', PStr ''S1''),
      (''invoice_number'', PStr ''INV-1''),
      (''invoice_date'', PStr ''2025-01-01''),
      (''total_amount'', PFloat 100),
      (''line_items'', PList [PDict [(''amount'', PFloat 100)]])]"

definition scenario_payload :: pyval where
  "scenario_payload =
     PDict
       [(''supplierReference'', PStr ''S1''),
        (''invoiceNumber'', PStr ''INV-1''),
        (''invoiceDate'', PStr ''2025-01-01''),
        (''invoiceDescription'', PStr []),
        (''invoiceTotal'', PDict [(''amount'', PFloat 100), (''currency'', PStr ''USD'')]),
        (''invoiceLines'', PList
           [PDict
              [(''lineNumber'', PInt 1),
               (''itemDescription'', PStr []),
               (''amount'', PDict [(''amount'', PFloat 100), (''currency'', PStr ''USD'')]),
               (''costCenter'', PStr []),
               (''projectReference'', PStr []),
               (''accountCategory'', PStr [])]])]"

text \<open>
  An invoice in euros with three line items, the second of which carries a currency
  entry of its own.
\<close>

definition euro_request :: pydict where
  "euro_request =
     [(''supplier_id'', PStr ''S2''),
      (''invoice_number'', PStr ''INV-2''),
      (''invoice_date'', PStr ''2025-02-01''),
      (''total_amount'', PInt 60),
      (''currency'', PStr ''EUR''),
      (''line_items'', PList
         [PDict [(''amount'', PInt 10)],
          PDict [(''amount'', PInt 20), (''currency'', PStr ''GBP'')],
          PDict [(''amount'', PInt 30), (''cost_center'', PStr ''CC-1'')]])]"

definition euro_line :: "int \<Rightarrow> int \<Rightarrow> string \<Rightarrow> pyval" where
  "euro_line n a cc =
     PDict
       [(''lineNumber'', PInt n),
        (''itemDescription'', PStr []),
        (''amount'', PDict [(''amount'', PInt a), (''currency'', PStr ''EUR'')]),
        (''costCenter'', PStr cc),
        (''projectReference'', PStr []),
        (''accountCategory'', PStr [])]"

definition euro_payload :: pyval where
  "euro_payload =
     PDict
       [(''supplierReference'', PStr ''S2''),
        (''invoiceNumber'', PStr ''INV-2''),
        (''invoiceDate'', PStr ''2025-02-01''),
        (''invoiceDescription'', PStr []),
        (''invoiceTotal'', PDict [(''amount'', PInt 60), (''currency'', PStr ''EUR'')]),
        (''invoiceLines'', PList [euro_line 1 10 [], euro_line 2 20 [], euro_line 3 30 ''CC-1''])]"

text \<open>A payment request with the required fields only.\<close>

definition plain_payment :: pydict where
  "plain_payment =
     [(''payment_date'', PStr ''2025-03-15''),
      (''payment_method'', PStr ''ACH''),
      (''amount'', PFloat 1250.75)]"

text \<open>
  A server whose token endpoint works as in \<open>demo_env\<close> and whose other endpoints answer
  every request with status 500 after one second.
\<close>

definition outage_env :: env where
  "outage_env =
     \<lparr>respond = (\<lambda>reqs.
        if url (last reqs) = ''https://t.example.com/ccx/oauth2/token''
        then (2, Responds \<lparr>status = 200, reason = ''OK'', resp_url = url (last reqs),
                           body_text = [],
                           json_body = Inr (PDict [(''access_token'', PStr ''tok''),
                                                   (''expires_in'', PInt 3600)])\<rparr>)
        else (1, Responds \<lparr>status = 500, reason = ''Internal Server Error'',
                           resp_url = url (last reqs), body_text = ''upstream failure'',
                           json_body = Inl ''Expecting value''\<rparr>)),
      str_other = (\<lambda>v. ''?'')\<rparr>"


text \<open>
  A server that answers every request, the token request included, with status 300 and
  a token document of its own.
\<close>

definition redirect_env :: env where
  "redirect_env =
     \<lparr>respond = (\<lambda>reqs.
        (2, Responds \<lparr>status = 300, reason = ''Multiple Choices'', resp_url = url (last reqs),
                      body_text = [],
                      json_body = Inr (PDict [(''access_token'', PStr ''evil''),
                                              (''expires_in'', PInt 3600)])\<rparr>)),
      str_other = (\<lambda>v. ''?'')\<rparr>"

text \<open>An invoice request whose only line item has no \<^verbatim>\<open>amount\<close>.\<close>

definition no_line_amount :: pydict where
  "no_line_amount =
     [(''supplier_id'', PStr ''S1''),
      (''invoice_number'', PStr ''INV-1''),
      (''invoice_date'', PStr ''2025-01-01''),
      (''total_amount'', PFloat 100),
      (''line_items'', PList [PDict [(''description'', PStr ''paper'')]])]"

text \<open>The wire payload of \<open>plain_payment\<close>.\<close>

definition plain_payload :: pyval where
  "plain_payload =
     PDict
       [(''paymentDate'', PStr ''2025-03-15''),
        (''paymentMethod'', PStr ''ACH''),
        (''paymentAmount'', PDict [(''amount'', PFloat 1250.75), (''currency'', PStr ''USD'')]),
        (''paymentReference'', PStr [])]"

section \<open>Token acquisition and caching\<close>

lemmas demo_defs =
  demo_env_def demo_client_def demo_world_def fresh_client_def fresh_world_def
  stale_world_def WorkdayAPIntegration_def

lemma b64encode_example: "b64encode ''id:secret'' = ''aWQ6c2VjcmV0''"
  by code_simp

text \<open>
  The guard works as intended when the stored expiry is a \<^verbatim>\<open>datetime\<close>: the token comes
  from the cache and nothing else changes.
\<close>

lemma get_auth_token_datetime_hit:
  assumes "truthy (token c)" and "token_expiry c = PDateTime t" and "clock w < t"
  shows "get_auth_token E c w = (Inr (token c), c, w)"
  using assms by (simp add: get_auth_token_def token_cached_def)

text \<open>Integers below \<open>2 ^ 53\<close> are doubles: rounding leaves them as they are.\<close>

lemma bit_length_le: "n < 2 ^ k \<Longrightarrow> bit_length n \<le> k"
proof (induction k arbitrary: n)
  case 0
  then show ?case by (simp add: bit_length.simps)
next
  case (Suc k)
  show ?case
  proof (cases "n \<le> 0")
    case True
    then show ?thesis by (simp add: bit_length.simps)
  next
    case False
    from Suc.prems have "n div 2 < 2 ^ k" by simp
    from Suc.IH [OF this] False show ?thesis by (simp add: bit_length.simps [of n])
  qed
qed

lemma round_half_even_of_int: "round_half_even (of_int m) = m"
  by (simp add: round_half_even_def)

lemma round_double_of_int:
  assumes "\<bar>n\<bar> < 2 ^ 53"
  shows "round_double (of_int n) = of_int n"
proof (cases "n = 0")
  case True
  then show ?thesis by (simp add: round_double_def)
next
  case False
  then have a: "1 \<le> \<bar>real_of_int n\<bar>" by linarith
  from assms have "bit_length \<bar>n\<bar> \<le> 53" by (rule bit_length_le)
  moreover have "\<lfloor>\<bar>real_of_int n\<bar>\<rfloor> = \<bar>n\<bar>"
    by (metis floor_of_int of_int_abs)
  ultimately have e: "binary_exponent (of_int n) - 52 \<le> 0"
    using a by (simp add: binary_exponent_def)
  define e where "e = max (binary_exponent (real_of_int n) - 52) (- 1074)"
  from e have e0: "e \<le> 0" by (simp add: e_def)
  then have s: "scale2 e = 1 / 2 ^ nat (- e)"
    by (cases "e = 0") (simp_all add: scale2_def)
  have "real_of_int n / scale2 e = of_int (n * 2 ^ nat (- e))"
    by (simp add: s)
  then have "round_half_even (real_of_int n / scale2 e) = n * 2 ^ nat (- e)"
    by (simp only: round_half_even_of_int)
  then have "of_int (round_half_even (real_of_int n / scale2 e)) * scale2 e = of_int n"
    by (simp add: s)
  with False show ?thesis by (simp add: round_double_def e_def)
qed

lemma float_result_of_int:
  assumes "\<bar>n\<bar> < 2 ^ 53"
  shows "float_result (of_int n) = PFloat (of_int n)"
proof -
  have "\<bar>real_of_int n\<bar> < 2 ^ 53"
    using assms by (metis of_int_abs of_int_less_numeral_power_cancel_iff)
  also have "(2::real) ^ 53 < 2 ^ 1024" by simp
  finally have "\<not> out_of_range (real_of_int n)" by (simp add: out_of_range_def)
  then show ?thesis by (simp add: float_result_def round_double_of_int [OF assms])
qed

lemma add_timestamp_int:
  assumes "\<bar>i\<bar> < 2 ^ 53" and "\<bar>t + i\<bar> < 2 ^ 53"
  shows "add_timestamp (of_int t) (PInt i) = Inr (PFloat (of_int (t + i)))"
proof -
  have "\<bar>real_of_int i\<bar> < 2 ^ 53"
    using assms(1) by (metis of_int_abs of_int_less_numeral_power_cancel_iff)
  also have "(2::real) ^ 53 < 2 ^ 1024" by simp
  finally have "\<not> out_of_range (real_of_int i)" by (simp add: out_of_range_def)
  moreover have "float_result (real_of_int t + real_of_int i) = PFloat (of_int (t + i))"
    using float_result_of_int [OF assms(2)] by simp
  ultimately show ?thesis by (simp add: round_double_of_int [OF assms(1)])
qed

text \<open>
  An int of magnitude \<open>2 ^ 1024\<close> or more has no double: the conversion raises
  \<^verbatim>\<open>OverflowError\<close>.
\<close>

lemma bit_length_gt: "2 ^ k \<le> n \<Longrightarrow> k < bit_length n"
proof (induction k arbitrary: n)
  case 0
  then show ?case by (simp add: bit_length.simps [of n])
next
  case (Suc k)
  then have "2 ^ k \<le> n div 2" by simp
  from Suc.IH [OF this] have "k < bit_length (n div 2)" .
  moreover from Suc.prems have "0 < n"
    by (smt (verit) zero_less_power)
  ultimately show ?case by (simp add: bit_length.simps [of n])
qed

lemma bit_length_lower: "0 < n \<Longrightarrow> 2 ^ (bit_length n - 1) \<le> n"
proof (induction n rule: bit_length.induct)
  case (1 n)
  show ?case
  proof (cases "n div 2 \<le> 0")
    case True
    with "1.prems" show ?thesis
      by (simp add: bit_length.simps [of n] bit_length.simps [of "n div 2"]
          bit_length.simps [of 0])
  next
    case False
    with "1.IH" "1.prems" have ih: "2 ^ (bit_length (n div 2) - 1) \<le> n div 2" by simp
    from False have "0 < bit_length (n div 2)" by (simp add: bit_length.simps [of "n div 2"])
    then have "(2::int) ^ bit_length (n div 2) = 2 * 2 ^ (bit_length (n div 2) - 1)"
      by (cases "bit_length (n div 2)") simp_all
    with ih have "2 ^ bit_length (n div 2) \<le> n" by linarith
    with "1.prems" show ?thesis by (simp add: bit_length.simps [of n])
  qed
qed

lemma round_half_even_bounds:
  "\<lfloor>q\<rfloor> \<le> round_half_even q" "round_half_even q \<le> \<lceil>q\<rceil>"
  by (auto simp: round_half_even_def ceiling_altdef)

lemma round_double_huge:
  assumes "2 ^ 1024 \<le> \<bar>n\<bar>"
  shows "out_of_range (round_double (of_int n))"
proof -
  define a where "a = \<bar>n\<bar>"
  define b where "b = bit_length a"
  have a: "2 ^ 1024 \<le> a" "0 < a" using assms by (simp_all add: a_def)
  from bit_length_gt [OF a(1)] have b: "1024 < b" by (simp add: b_def)
  have x: "\<bar>real_of_int n\<bar> = of_int a" by (simp add: a_def)
  have "1 \<le> \<bar>real_of_int n\<bar>" using a by (simp add: x)
  then have be: "binary_exponent (of_int n) = int b - 1"
    by (simp add: binary_exponent_def x b_def)
  define e where "e = b - 53"
  have e: "max (binary_exponent (real_of_int n) - 52) (- 1074) = int e"
    using b by (simp add: be e_def)
  have s: "scale2 (int e) = 2 ^ e" by (simp add: scale2_def)
  from bit_length_lower [OF a(2)] have low: "2 ^ (b - 1) \<le> a" by (simp add: b_def)
  have "b - 1 = 52 + e" using b by (simp add: e_def)
  then have split: "(2::real) ^ (b - 1) = 2 ^ 52 * 2 ^ e"
    by (simp only: power_add)
  define q where "q = real_of_int n / 2 ^ e"
  have "2 ^ 52 * 2 ^ e \<le> real_of_int a"
    using low split by (metis of_int_le_iff of_int_numeral of_int_power)
  then have qa: "2 ^ 52 \<le> \<bar>q\<bar>"
    by (simp add: q_def x pos_le_divide_eq)
  have r: "2 ^ 52 \<le> \<bar>real_of_int (round_half_even q)\<bar>"
  proof (cases "0 \<le> q")
    case True
    with qa have "2 ^ 52 \<le> q" by simp
    then have "2 ^ 52 \<le> \<lfloor>q\<rfloor>" by (simp add: le_floor_iff)
    with round_half_even_bounds(1) [of q] have "2 ^ 52 \<le> round_half_even q" by linarith
    then have "(2::real) ^ 52 \<le> of_int (round_half_even q)"
      by (metis of_int_le_iff of_int_numeral of_int_power)
    then show ?thesis by linarith
  next
    case False
    with qa have "q \<le> - (2 ^ 52)" by simp
    then have "\<lceil>q\<rceil> \<le> - (2 ^ 52)" by (simp add: ceiling_le_iff)
    with round_half_even_bounds(2) [of q] have "round_half_even q \<le> - (2 ^ 52)" by linarith
    then have "of_int (round_half_even q) \<le> - ((2::real) ^ 52)"
      by (metis of_int_le_iff of_int_minus of_int_numeral of_int_power)
    then show ?thesis by linarith
  qed
  have "(2::real) ^ 1024 \<le> 2 ^ (b - 1)"
    by (rule power_increasing) (use b in auto)
  also have "\<dots> = 2 ^ 52 * 2 ^ e" by (rule split)
  also have "\<dots> \<le> \<bar>real_of_int (round_half_even q)\<bar> * 2 ^ e"
    using r by (simp add: mult_right_mono)
  also have "\<dots> = \<bar>real_of_int (round_half_even q) * 2 ^ e\<bar>" by (simp add: abs_mult)
  finally have "out_of_range (real_of_int (round_half_even q) * 2 ^ e)"
    by (simp add: out_of_range_def)
  moreover have "real_of_int n \<noteq> 0" using a by (simp add: a_def)
  ultimately show ?thesis by (simp add: round_double_def e s q_def)
qed

lemma add_timestamp_overflow:
  assumes "2 ^ 1024 \<le> \<bar>i\<bar>"
  shows "add_timestamp t (PInt i) = Inl (OverflowError ''int too large to convert to float'')"
  using round_double_huge [OF assms] by simp

text \<open>
  The sum is rounded: 1002.0 plus the double nearest to one tenth is the double
  8814564817554637 / 8796093022208, which is what \<^verbatim>\<open>1002.0 + 0.1\<close> is in Python.
\<close>

lemma rounded_sum_example:
  "add_timestamp 1002 (PFloat (3602879701896397 / 36028797018963968))
     = Inr (PFloat (8814564817554637 / 8796093022208))"
  by code_simp

lemma expiry_4602: "add_timestamp 1002 (PInt 3600) = Inr (PFloat 4602)"
  using add_timestamp_int [of 3600 1002] by simp

text \<open>
  Without a usable cache (no token or no expiry) the client sends the token request
  once; a response below status 400 with a token document makes it store the token and
  the expiry, the float sum of the clock reading after the call and \<^verbatim>\<open>expires_in\<close>.
\<close>

lemma get_auth_token_refresh:
  assumes "\<not> truthy (token c) \<or> \<not> truthy (token_expiry c)"
    and "respond E (sent w @ [token_request c]) = (dt, Responds resp)"
    and "status resp < 400"
    and "json_body resp = Inr (PDict d)"
    and "map_of d ''access_token'' = Some tok"
    and "map_of d ''expires_in'' = Some v"
    and "add_timestamp (clock w + dt) v = Inr expiry"
  shows "get_auth_token E c w =
           (Inr tok,
            c\<lparr>token := tok, token_expiry := expiry\<rparr>,
            w\<lparr>clock := clock w + dt, sent := sent w @ [token_request c]\<rparr>)"
  using assms
  by (auto simp add: get_auth_token_def token_cached_def auth_try_def send_def
      raise_for_status_def response_json_def getitem_def)

text \<open>
  \<^verbatim>\<open>self.token\<close> is assigned before the expiry is computed: an \<^verbatim>\<open>expires_in\<close> too large
  for a float leaves the new token stored next to the old expiry.
\<close>

lemma get_auth_token_overflow:
  assumes "\<not> truthy (token c) \<or> \<not> truthy (token_expiry c)"
    and "respond E (sent w @ [token_request c]) = (dt, Responds resp)"
    and "status resp < 400"
    and "json_body resp = Inr (PDict d)"
    and "map_of d ''access_token'' = Some tok"
    and "map_of d ''expires_in'' = Some (PInt i)"
    and "2 ^ 1024 \<le> \<bar>i\<bar>"
  shows "get_auth_token E c w =
           (Inl (OverflowError ''int too large to convert to float''),
            c\<lparr>token := tok\<rparr>,
            w\<lparr>clock := clock w + dt, sent := sent w @ [token_request c]\<rparr>)"
  using assms(1-6) add_timestamp_overflow [OF assms(7)]
  by (auto simp add: get_auth_token_def token_cached_def auth_try_def send_def
      raise_for_status_def response_json_def getitem_def simp del: add_timestamp.simps)

text \<open>
  C1. A token is cached and its stored expiry lies strictly in the future, and yet
  \<^verbatim>\<open>get_auth_token\<close> does not return it: the expiry the client stores is a float
  (source line 56), the guard compares it with a \<^verbatim>\<open>datetime\<close> (source line 33), and
  Python raises \<^verbatim>\<open>TypeError\<close>. The first call below fetches the token \<^verbatim>\<open>tok\<close>, valid
  until 4602; the second call, at time 1002, raises.
\<close>

theorem cached_token_raises_type_error:
  "get_auth_token demo_env demo_client demo_world = (Inr (PStr ''tok''), fresh_client, fresh_world)
   \<and> token fresh_client = PStr ''tok''
   \<and> token_expiry fresh_client = PFloat 4602
   \<and> clock fresh_world = 1002
   \<and> get_auth_token demo_env fresh_client fresh_world
       = (Inl (TypeError ''>''), fresh_client, fresh_world)"
  by (simp add: demo_defs get_auth_token_def token_cached_def auth_try_def send_def
      raise_for_status_def response_json_def getitem_def expiry_4602
      del: add_timestamp.simps)

text \<open>
  C2. The cached expiry (4602) is in the past at time 9000, and \<^verbatim>\<open>get_auth_token\<close>
  issues no request at all: the same comparison of a float with a \<^verbatim>\<open>datetime\<close> raises
  \<^verbatim>\<open>TypeError\<close> before the token endpoint is contacted, and the list of requests sent
  stays as it was.
\<close>

theorem expired_token_raises_type_error:
  "token_expiry fresh_client = PFloat 4602
   \<and> clock stale_world = 9000
   \<and> get_auth_token demo_env fresh_client stale_world
       = (Inl (TypeError ''>''), fresh_client, stale_world)
   \<and> sent (snd (snd (get_auth_token demo_env fresh_client stale_world))) = sent stale_world"
  by (simp add: demo_defs get_auth_token_def token_cached_def)

section \<open>Failure of the token request\<close>

lemma and_then_Inl_iff:
  "and_then x f = Inl e \<longleftrightarrow> x = Inl e \<or> (\<exists>v. x = Inr v \<and> f v = Inl e)"
  by (cases x) auto

lemma send_eq:
  "send E req w =
     (snd (respond E (sent w @ [req])),
      w\<lparr>clock := clock w + fst (respond E (sent w @ [req])), sent := sent w @ [req]\<rparr>)"
  by (simp add: send_def Let_def)

lemma raise_for_status_cases:
  "raise_for_status resp = Inr () \<or> (\<exists>m. raise_for_status resp = Inl (RequestException m (Some resp)))"
  by (simp add: raise_for_status_def)

lemma failure_cause_status:
  "400 \<le> status resp \<and> status resp < 600 \<Longrightarrow>
   \<exists>m. failure_cause (Responds resp) = Some (RequestException m (Some resp))"
  by (auto simp: raise_for_status_def)

lemma py_getitem_not_request: "py_getitem v k \<noteq> Inl (RequestException m r)"
  by (cases v) (auto simp: getitem_def split: option.splits)

lemma py_getitem_not_exception: "py_getitem v k \<noteq> Inl (PyException m)"
  by (cases v) (auto simp: getitem_def split: option.splits)

lemma add_timestamp_not_request: "add_timestamp t v \<noteq> Inl (RequestException m r)"
  by (cases v) auto

lemma add_timestamp_not_exception: "add_timestamp t v \<noteq> Inl (PyException m)"
  by (cases v) auto

lemma raise_for_status_not_exception: "raise_for_status resp \<noteq> Inl (PyException m)"
  by (simp add: raise_for_status_def)

lemma response_json_not_exception: "response_json resp \<noteq> Inl (PyException m)"
  by (simp add: response_json_def split: sum.splits)

text \<open>The \<^verbatim>\<open>try\<close> of \<^verbatim>\<open>get_auth_token\<close> fails at once when the call fails.\<close>

lemma auth_try_failure:
  assumes "failure_cause (snd (respond E (sent w @ [token_request c]))) = Some e"
  shows "auth_try E c w = (Inl e, c, snd (send E (token_request c) w))"
proof (cases "snd (respond E (sent w @ [token_request c]))")
  case (Raises m r)
  with assms show ?thesis by (auto simp: auth_try_def send_eq)
next
  case (Responds resp)
  with assms have "raise_for_status resp = Inl e" by (simp split: sum.splits)
  with Responds show ?thesis by (simp add: auth_try_def send_eq)
qed

text \<open>A \<^verbatim>\<open>RequestException\<close> leaves the \<^verbatim>\<open>try\<close> only before the first assignment.\<close>

lemma auth_try_request_exception:
  "auth_try E c w = (Inl (RequestException m r), c1, w1) \<Longrightarrow> c1 = c"
  by (auto simp: auth_try_def and_then_Inl_iff py_getitem_not_request add_timestamp_not_request
      split: prod.splits http_result.splits sum.splits)

lemma auth_try_not_exception: "auth_try E c w \<noteq> (Inl (PyException m), c1, w1)"
  by (auto simp: auth_try_def and_then_Inl_iff py_getitem_not_exception
      add_timestamp_not_exception raise_for_status_not_exception
      response_json_not_exception
      split: prod.splits http_result.splits sum.splits)

lemma get_auth_token_failure:
  assumes "token_cached c w = Inr False"
    and "failure_cause (snd (respond E (sent w @ [token_request c]))) = Some (RequestException m r)"
  shows "get_auth_token E c w =
           (Inl (PyException (''Failed to authenticate with Workday: '' @ m)), c,
            logger ERROR (''Authentication error: '' @ m) (snd (send E (token_request c) w)))"
  using assms by (simp add: get_auth_token_def auth_try_failure)

lemma get_auth_token_exception_client:
  assumes "get_auth_token E c w = (Inl (PyException msg), c1, w1)"
  shows "c1 = c"
proof (cases "token_cached c w")
  case (Inl e)
  with assms show ?thesis by (simp add: get_auth_token_def)
next
  case (Inr b)
  show ?thesis
  proof (cases b)
    case True
    with Inr assms show ?thesis by (simp add: get_auth_token_def)
  next
    case False
    obtain res c2 w2 where t: "auth_try E c w = (res, c2, w2)"
      by (cases "auth_try E c w") auto
    show ?thesis
    proof (cases res)
      case (Inl e)
      show ?thesis
      proof (cases e)
        case (RequestException m r)
        with Inl t have "c2 = c" by (auto dest: auth_try_request_exception)
        with RequestException Inl t False Inr assms show ?thesis
          by (simp add: get_auth_token_def)
      next
        case (PyException m)
        with Inl t show ?thesis by (simp add: auth_try_not_exception)
      qed (use Inl t False Inr assms in \<open>auto simp: get_auth_token_def\<close>)
    next
      case (Inr v)
      with t False \<open>token_cached c w = Inr b\<close> assms show ?thesis
        by (simp add: get_auth_token_def)
    qed
  qed
qed

text \<open>
  C9, as the code has it. When the token request fails with a transport error or with
  a status from 400 to 599, the statuses that \<^verbatim>\<open>raise_for_status\<close> rejects,
  \<^verbatim>\<open>get_auth_token\<close> raises its authentication exception, writes one error record, and
  returns the client exactly as it was: token and expiry are untouched. More
  generally, whenever the exception of the handler leaves \<^verbatim>\<open>get_auth_token\<close>, the client
  is unchanged.
\<close>

theorem auth_failure_keeps_cache:
  "(token_cached c w = Inr False \<and>
    failure_cause (snd (respond E (sent w @ [token_request c]))) = Some (RequestException m r)
      \<longrightarrow> get_auth_token E c w =
            (Inl (PyException (''Failed to authenticate with Workday: '' @ m)), c,
             logger ERROR (''Authentication error: '' @ m) (snd (send E (token_request c) w))))
   \<and> (get_auth_token E c w = (Inl (PyException msg), c1, w1) \<longrightarrow>
        c1 = c \<and> token c1 = token c \<and> token_expiry c1 = token_expiry c)
   \<and> (400 \<le> status resp \<and> status resp < 600 \<longrightarrow>
        (\<exists>m'. failure_cause (Responds resp) = Some (RequestException m' (Some resp))))
   \<and> failure_cause (Raises m r) = Some (RequestException m r)"
  using get_auth_token_failure [of c w E m r] get_auth_token_exception_client [of E c w msg c1 w1]
    failure_cause_status [of resp]
  by auto

theorem auth_failure_keeps_cache_witness:
  "token_cached lapsed_client demo_world = Inr False
   \<and> failure_cause (snd (respond down_env (sent demo_world @ [token_request lapsed_client])))
       = Some (RequestException ''Connection refused'' None)
   \<and> get_auth_token down_env lapsed_client demo_world =
       (Inl (PyException ''Failed to authenticate with Workday: Connection refused''),
        lapsed_client,
        \<lparr>clock = 1030, sent = [token_request lapsed_client],
         log_records = [(ERROR, ''Authentication error: Connection refused'')]\<rparr>)
   \<and> token lapsed_client = PStr ''old''
   \<and> 400 \<le> status unauthorized \<and> status unauthorized < 600
   \<and> failure_cause (Responds unauthorized) =
       Some (RequestException
         ''401 Client Error: Unauthorized for url: https://t.example.com/ccx/oauth2/token''
         (Some unauthorized))"
proof -
  have c: "token_cached lapsed_client demo_world = Inr False"
    by (simp add: token_cached_def lapsed_client_def demo_defs)
  have f: "failure_cause (snd (respond down_env (sent demo_world @ [token_request lapsed_client])))
       = Some (RequestException ''Connection refused'' None)"
    by (simp add: down_env_def)
  have s: "str_nat 401 = ''401''" by code_simp
  from c f auth_failure_keeps_cache
    [of lapsed_client demo_world down_env "''Connection refused''" None
       "''Failed to authenticate with Workday: Connection refused''" lapsed_client
       "\<lparr>clock = 1030, sent = [token_request lapsed_client],
         log_records = [(ERROR, ''Authentication error: Connection refused'')]\<rparr>" unauthorized]
  show ?thesis
    by (simp add: send_eq logger_def down_env_def demo_world_def lapsed_client_def
        demo_client_def WorkdayAPIntegration_def unauthorized_def raise_for_status_def s)
qed

text \<open>
  The claim as worded, for every status outside 2xx, fails: \<^verbatim>\<open>raise_for_status\<close> lets a
  status of 300 pass, so the client reads the body of that response as a token
  document and overwrites the token and the expiry it held.
\<close>

theorem status_300_overwrites_cache:
  "answered_status (snd (respond redirect_env (sent demo_world @ [token_request lapsed_client])))
     = Some 300
   \<and> token lapsed_client = PStr ''old''
   \<and> token_expiry lapsed_client = PNone
   \<and> fst (get_auth_token redirect_env lapsed_client demo_world) = Inr (PStr ''evil'')
   \<and> token (fst (snd (get_auth_token redirect_env lapsed_client demo_world))) = PStr ''evil''
   \<and> token_expiry (fst (snd (get_auth_token redirect_env lapsed_client demo_world)))
       = PFloat 4602"
  by (simp add: redirect_env_def lapsed_client_def demo_defs get_auth_token_def token_cached_def
      auth_try_def send_eq raise_for_status_def response_json_def getitem_def expiry_4602
      del: add_timestamp.simps)

section \<open>The token is acquired before the request is read\<close>

lemma auth_try_world: "snd (snd (auth_try E c w)) = snd (send E (token_request c) w)"
  by (simp add: auth_try_def split: prod.splits http_result.splits sum.splits)

lemma get_auth_token_sent:
  "sent (snd (snd (get_auth_token E c w))) = sent w \<or>
   sent (snd (snd (get_auth_token E c w))) = sent w @ [token_request c]"
proof -
  have "sent (snd (snd (auth_try E c w))) = sent w @ [token_request c]"
    by (simp add: auth_try_world send_eq)
  then show ?thesis
    by (auto simp: get_auth_token_def logger_def
        split: sum.splits bool.splits prod.splits py_exc.splits)
qed

lemma formatted_invoice_missing:
  assumes "k \<in> set invoice_required" and "map_of invoice_data k = None"
  shows "\<exists>k'\<in>set invoice_required.
           map_of invoice_data k' = None \<and> formatted_invoice invoice_data = Inl (KeyError k')"
  using assms
  by (auto simp: invoice_required_def formatted_invoice_def getitem_def split: option.splits)

lemma formatted_payment_missing:
  assumes "k \<in> set payment_required" and "map_of payment_data k = None"
  shows "\<exists>k'\<in>set payment_required.
           map_of payment_data k' = None \<and> formatted_payment payment_data = Inl (KeyError k')"
  using assms
  by (auto simp: payment_required_def formatted_payment_def getitem_def split: option.splits)

lemma create_invoice_unformatted:
  assumes "formatted_invoice invoice_data = Inl e"
  shows "snd (create_invoice E c invoice_data w) = snd (get_auth_token E c w)"
    and "fst (create_invoice E c invoice_data w) =
           (case fst (get_auth_token E c w) of Inl a \<Rightarrow> Inl a | Inr tok \<Rightarrow> Inl e)"
  using assms by (auto simp: create_invoice_def split: prod.splits sum.splits)

lemma update_invoice_payment_unformatted:
  assumes "formatted_payment payment_data = Inl e"
  shows "snd (update_invoice_payment E c invoice_id payment_data w) = snd (get_auth_token E c w)"
    and "fst (update_invoice_payment E c invoice_id payment_data w) =
           (case fst (get_auth_token E c w) of Inl a \<Rightarrow> Inl a | Inr tok \<Rightarrow> Inl e)"
  using assms by (auto simp: update_invoice_payment_def split: prod.splits sum.splits)

text \<open>
  C10. \<^verbatim>\<open>create_invoice\<close> and \<^verbatim>\<open>update_invoice_payment\<close> call \<^verbatim>\<open>get_auth_token\<close> first.
  When the request lacks a required key (or the payload cannot be built for any other
  reason, such as a line item without \<^verbatim>\<open>amount\<close>), the client and the world after the
  operation are exactly those after \<^verbatim>\<open>get_auth_token\<close>, so at most the token request
  has been sent and the invoice or payment endpoint has not been contacted; the
  operation raises the exception of \<^verbatim>\<open>get_auth_token\<close> if that failed, and the
  \<^verbatim>\<open>KeyError\<close> of a missing key otherwise.
\<close>

theorem token_before_required_fields:
  "(k \<in> set invoice_required \<and> map_of invoice_data k = None \<longrightarrow>
      (\<exists>k'\<in>set invoice_required. map_of invoice_data k' = None \<and>
         fst (create_invoice E c invoice_data w) =
           (case fst (get_auth_token E c w) of Inl a \<Rightarrow> Inl a | Inr tok \<Rightarrow> Inl (KeyError k')))
      \<and> snd (create_invoice E c invoice_data w) = snd (get_auth_token E c w))
   \<and> (kp \<in> set payment_required \<and> map_of payment_data kp = None \<longrightarrow>
      (\<exists>k'\<in>set payment_required. map_of payment_data k' = None \<and>
         fst (update_invoice_payment E c invoice_id payment_data w) =
           (case fst (get_auth_token E c w) of Inl a \<Rightarrow> Inl a | Inr tok \<Rightarrow> Inl (KeyError k')))
      \<and> snd (update_invoice_payment E c invoice_id payment_data w) = snd (get_auth_token E c w))
   \<and> (formatted_invoice invoice_data = Inl e \<longrightarrow>
        fst (create_invoice E c invoice_data w) =
          (case fst (get_auth_token E c w) of Inl a \<Rightarrow> Inl a | Inr tok \<Rightarrow> Inl e)
        \<and> snd (create_invoice E c invoice_data w) = snd (get_auth_token E c w))
   \<and> (formatted_payment payment_data = Inl ep \<longrightarrow>
        fst (update_invoice_payment E c invoice_id payment_data w) =
          (case fst (get_auth_token E c w) of Inl a \<Rightarrow> Inl a | Inr tok \<Rightarrow> Inl ep)
        \<and> snd (update_invoice_payment E c invoice_id payment_data w) = snd (get_auth_token E c w))
   \<and> (sent (snd (snd (get_auth_token E c w))) = sent w \<or>
       sent (snd (snd (get_auth_token E c w))) = sent w @ [token_request c])"
proof (intro conjI impI)
  assume h: "k \<in> set invoice_required \<and> map_of invoice_data k = None"
  then obtain k' where k': "k' \<in> set invoice_required" "map_of invoice_data k' = None"
      "formatted_invoice invoice_data = Inl (KeyError k')"
    using formatted_invoice_missing [of k invoice_data] by blast
  from k' create_invoice_unformatted(2) [OF k'(3), of E c w]
  show "\<exists>k'\<in>set invoice_required. map_of invoice_data k' = None \<and>
         fst (create_invoice E c invoice_data w) =
           (case fst (get_auth_token E c w) of Inl a \<Rightarrow> Inl a | Inr tok \<Rightarrow> Inl (KeyError k'))"
    by blast
  from create_invoice_unformatted(1) [OF k'(3)]
  show "snd (create_invoice E c invoice_data w) = snd (get_auth_token E c w)" .
next
  assume h: "kp \<in> set payment_required \<and> map_of payment_data kp = None"
  then obtain k' where k': "k' \<in> set payment_required" "map_of payment_data k' = None"
      "formatted_payment payment_data = Inl (KeyError k')"
    using formatted_payment_missing [of kp payment_data] by blast
  from k' update_invoice_payment_unformatted(2) [OF k'(3), of E c invoice_id w]
  show "\<exists>k'\<in>set payment_required. map_of payment_data k' = None \<and>
         fst (update_invoice_payment E c invoice_id payment_data w) =
           (case fst (get_auth_token E c w) of Inl a \<Rightarrow> Inl a | Inr tok \<Rightarrow> Inl (KeyError k'))"
    by blast
  from update_invoice_payment_unformatted(1) [OF k'(3)]
  show "snd (update_invoice_payment E c invoice_id payment_data w) = snd (get_auth_token E c w)" .
next
  show "sent (snd (snd (get_auth_token E c w))) = sent w \<or>
       sent (snd (snd (get_auth_token E c w))) = sent w @ [token_request c]"
    by (rule get_auth_token_sent)
qed (simp_all add: create_invoice_unformatted update_invoice_payment_unformatted)

theorem token_before_required_fields_witness:
  "''supplier_id'' \<in> set invoice_required \<and> map_of no_supplier ''supplier_id'' = None
   \<and> ''amount'' \<in> set payment_required \<and> map_of no_amount ''amount'' = None
   \<and> formatted_invoice no_supplier = Inl (KeyError ''supplier_id'')
   \<and> formatted_payment no_amount = Inl (KeyError ''amount'')
   \<and> get_auth_token demo_env demo_client demo_world
       = (Inr (PStr ''tok''), fresh_client, fresh_world)
   \<and> create_invoice demo_env demo_client no_supplier demo_world
       = (Inl (KeyError ''supplier_id''), fresh_client, fresh_world)
   \<and> update_invoice_payment demo_env demo_client (PStr ''WID-7'') no_amount demo_world
       = (Inl (KeyError ''amount''), fresh_client, fresh_world)
   \<and> sent fresh_world = sent demo_world @ [token_request demo_client]"
proof -
  have a: "get_auth_token demo_env demo_client demo_world
       = (Inr (PStr ''tok''), fresh_client, fresh_world)"
    by (simp add: demo_defs get_auth_token_def token_cached_def auth_try_def send_eq
      raise_for_status_def response_json_def getitem_def expiry_4602
      del: add_timestamp.simps)
  have i: "formatted_invoice no_supplier = Inl (KeyError ''supplier_id'')"
    by (simp add: formatted_invoice_def getitem_def no_supplier_def)
  have p: "formatted_payment no_amount = Inl (KeyError ''amount'')"
    by (simp add: formatted_payment_def getitem_def no_amount_def)
  have m: "''supplier_id'' \<in> set invoice_required \<and> map_of no_supplier ''supplier_id'' = None"
    "''amount'' \<in> set payment_required \<and> map_of no_amount ''amount'' = None"
    by (simp_all add: invoice_required_def payment_required_def no_supplier_def no_amount_def)
  have s: "sent fresh_world = sent demo_world @ [token_request demo_client]"
    by (simp add: fresh_world_def demo_world_def)
  note t = token_before_required_fields
    [where k = "''supplier_id''" and invoice_data = no_supplier and E = demo_env
       and c = demo_client and w = demo_world and kp = "''amount''"
       and payment_data = no_amount and invoice_id = "PStr ''WID-7''"
       and e = "KeyError ''supplier_id''" and ep = "KeyError ''amount''"]
  from t m i a
  have "create_invoice demo_env demo_client no_supplier demo_world
       = (Inl (KeyError ''supplier_id''), fresh_client, fresh_world)"
    by (simp add: prod_eq_iff)
  moreover
  from t m p a
  have "update_invoice_payment demo_env demo_client (PStr ''WID-7'') no_amount demo_world
       = (Inl (KeyError ''amount''), fresh_client, fresh_world)"
    by (simp add: prod_eq_iff)
  ultimately show ?thesis using a i p m s by simp
qed

section \<open>The invoice and payment payloads\<close>

lemma and_then_Inr_iff:
  "and_then x f = Inr y \<longleftrightarrow> (\<exists>v. x = Inr v \<and> f v = Inr y)"
  by (cases x) auto

lemma invoice_line_Inr:
  assumes "invoice_line invoice_data idx v = Inr line"
  shows "\<exists>item amount. v = PDict item \<and> map_of item ''amount'' = Some amount \<and>
           line = PDict
             [(''lineNumber'', PInt (int idx + 1)),
              (''itemDescription'', get_default item ''description'' (PStr [])),
              (''amount'', PDict
                 [(''amount'', amount),
                  (''currency'', get_default invoice_data ''currency'' (PStr ''USD''))]),
              (''costCenter'', get_default item ''cost_center'' (PStr [])),
              (''projectReference'', get_default item ''project_id'' (PStr [])),
              (''accountCategory'', get_default item ''account_category'' (PStr []))]"
  using assms by (cases v) (auto simp: getitem_def and_then_Inr_iff split: option.splits)

lemma invoice_lines_Inr:
  assumes "invoice_lines invoice_data idx items = Inr lines"
  shows "length lines = length items \<and>
         (\<forall>i<length items. invoice_line invoice_data (idx + i) (items ! i) = Inr (lines ! i))"
  using assms
proof (induction items arbitrary: idx lines)
  case Nil
  then show ?case by simp
next
  case (Cons item rest)
  from Cons.prems obtain line ls where
    l: "invoice_line invoice_data idx item = Inr line" and
    ls: "invoice_lines invoice_data (Suc idx) rest = Inr ls" and
    eq: "lines = line # ls"
    by (auto simp: and_then_Inr_iff)
  from Cons.IH [OF ls] have ih: "length ls = length rest"
    "\<And>i. i < length rest \<Longrightarrow> invoice_line invoice_data (Suc idx + i) (rest ! i) = Inr (ls ! i)"
    by auto
  show ?case
  proof (intro conjI allI impI)
    show "length lines = length (item # rest)" using eq ih(1) by simp
  next
    fix i assume "i < length (item # rest)"
    then show "invoice_line invoice_data (idx + i) ((item # rest) ! i) = Inr (lines ! i)"
      using l ih(2) eq by (cases i) auto
  qed
qed

lemma formatted_invoice_Inr:
  assumes "formatted_invoice invoice_data = Inr p"
  shows "\<exists>supplier_id invoice_number invoice_date total_amount line_items items lines.
           map_of invoice_data ''supplier_id'' = Some supplier_id \<and>
           map_of invoice_data ''invoice_number'' = Some invoice_number \<and>
           map_of invoice_data ''invoice_date'' = Some invoice_date \<and>
           map_of invoice_data ''total_amount'' = Some total_amount \<and>
           map_of invoice_data ''line_items'' = Some line_items \<and>
           py_iter line_items = Inr items \<and>
           invoice_lines invoice_data 0 items = Inr lines \<and>
           p = PDict
             [(''supplierReference'', supplier_id),
              (''invoiceNumber'', invoice_number),
              (''invoiceDate'', invoice_date),
              (''invoiceDescription'', get_default invoice_data ''description'' (PStr [])),
              (''invoiceTotal'', PDict
                 [(''amount'', total_amount),
                  (''currency'', get_default invoice_data ''currency'' (PStr ''USD''))]),
              (''invoiceLines'', PList lines)]"
  using assms
  by (auto simp: formatted_invoice_def getitem_def and_then_Inr_iff split: option.splits)


lemma get_default_optional: "get_default d k (PStr dflt) = optional d k dflt"
  by (simp add: get_default_def optional_def split: option.splits)

lemma invoice_lines_valid:
  assumes "list_all valid_item items"
  shows "invoice_lines invoice_data idx items =
           Inr (map (wire_line (optional invoice_data ''currency'' ''USD'')) (enumerate idx items))"
  using assms
proof (induction items arbitrary: idx)
  case Nil
  then show ?case by simp
next
  case (Cons item rest)
  from Cons.prems obtain d a where d: "item = PDict d" "map_of d ''amount'' = Some a"
    by (cases item) auto
  from Cons.prems have "list_all valid_item rest" by simp
  from Cons.IH [OF this, of "Suc idx"] d show ?case
    by (simp add: getitem_def get_default_optional required_def)
qed

lemma formatted_invoice_valid:
  assumes "valid_invoice invoice_data"
  shows "formatted_invoice invoice_data = Inr (wire_invoice invoice_data)"
proof -
  from assms obtain items where
    li: "map_of invoice_data ''line_items'' = Some (PList items)" and
    ok: "list_all valid_item items"
    by (auto simp: valid_invoice_def split: option.splits pyval.splits)
  from assms li show ?thesis
    by (auto simp: valid_invoice_def formatted_invoice_def wire_invoice_def getitem_def
        required_def get_default_optional invoice_lines_valid [OF ok])
qed

lemma scenario_formatted: "formatted_invoice scenario_request = Inr scenario_payload"
  by (simp add: formatted_invoice_def getitem_def get_default_def scenario_request_def
      scenario_payload_def)

lemma euro_formatted: "formatted_invoice euro_request = Inr euro_payload"
  by (simp add: formatted_invoice_def getitem_def get_default_def euro_request_def
      euro_payload_def euro_line_def)

lemma demo_token:
  "get_auth_token demo_env demo_client demo_world = (Inr (PStr ''tok''), fresh_client, fresh_world)"
  by (simp add: demo_defs get_auth_token_def token_cached_def auth_try_def send_eq
      raise_for_status_def response_json_def getitem_def expiry_4602
      del: add_timestamp.simps)

lemma scenario_encodable: "\<not> json_type_error scenario_payload"
  by (simp add: json_type_error_def scenario_payload_def)

text \<open>
  The end-to-end scenario: the client fetches a token and posts the payload to the
  invoice endpoint of the tenant.
\<close>

lemma scenario_created:
  "create_invoice demo_env demo_client scenario_request demo_world =
     (Inr (PDict [(''access_token'', PStr ''tok''), (''expires_in'', PInt 3600)]),
      fresh_client,
      \<lparr>clock = 1004,
       sent = [token_request demo_client,
               \<lparr>meth = POST,
                url = ''https://t.example.com/api/v1/financial-management/suppliers/invoices'',
                headers = [(''Authorization'', ''Bearer tok''),
                           (''Content-Type'', ''application/json''),
                           (''Accept'', ''application/json'')],
                req_body = JsonBody scenario_payload\<rparr>],
       log_records = [(INFO, ''Successfully created invoice INV-1 in Workday'')]\<rparr>)"
proof -
  have d: "\<And>reqs. respond demo_env reqs =
             (2, Responds \<lparr>status = 200, reason = ''OK'', resp_url = url (last reqs),
                            body_text = [],
                            json_body = Inr (PDict [(''access_token'', PStr ''tok''),
                                                    (''expires_in'', PInt 3600)])\<rparr>)"
    by (simp add: demo_env_def)
  have r: "create_request demo_env fresh_client (PStr ''tok'') scenario_payload =
             \<lparr>meth = POST,
                url = ''https://t.example.com/api/v1/financial-management/suppliers/invoices'',
                headers = [(''Authorization'', ''Bearer tok''),
                           (''Content-Type'', ''application/json''),
                           (''Accept'', ''application/json'')],
                req_body = JsonBody scenario_payload\<rparr>"
    by (simp add: create_request_def invoices_url_def py_str_def demo_defs)
  have n: "getitem scenario_request ''invoice_number'' = Inr (PStr ''INV-1'')"
    by (simp add: getitem_def scenario_request_def)
  have t: "create_try demo_env fresh_client (PStr ''tok'') scenario_request scenario_payload
             fresh_world =
           (Inr (PDict [(''access_token'', PStr ''tok''), (''expires_in'', PInt 3600)]),
            logger INFO ''Successfully created invoice INV-1 in Workday''
              (snd (send demo_env
                 (create_request demo_env fresh_client (PStr ''tok'') scenario_payload)
                 fresh_world)))"
    by (simp add: create_try_def send_eq n d raise_for_status_def response_json_def
        py_str_def scenario_encodable)
  have w: "logger INFO ''Successfully created invoice INV-1 in Workday''
              (snd (send demo_env
                 (create_request demo_env fresh_client (PStr ''tok'') scenario_payload)
                 fresh_world)) =
           \<lparr>clock = 1004,
            sent = [token_request demo_client,
               \<lparr>meth = POST,
                url = ''https://t.example.com/api/v1/financial-management/suppliers/invoices'',
                headers = [(''Authorization'', ''Bearer tok''),
                           (''Content-Type'', ''application/json''),
                           (''Accept'', ''application/json'')],
                req_body = JsonBody scenario_payload\<rparr>],
            log_records = [(INFO, ''Successfully created invoice INV-1 in Workday'')]\<rparr>"
    by (simp add: r logger_def send_eq d fresh_world_def demo_world_def)
  have "create_invoice demo_env demo_client scenario_request demo_world =
          (Inr (PDict [(''access_token'', PStr ''tok''), (''expires_in'', PInt 3600)]),
           fresh_client,
           logger INFO ''Successfully created invoice INV-1 in Workday''
              (snd (send demo_env
                 (create_request demo_env fresh_client (PStr ''tok'') scenario_payload)
                 fresh_world)))"
    by (simp add: create_invoice_def demo_token scenario_formatted t)
  then show ?thesis by (simp only: w)
qed

text \<open>
  C4. The request of the end-to-end scenario is formatted into exactly the payload the
  specification gives, and that payload is the body of the request \<^verbatim>\<open>create_invoice\<close>
  sends after the token request; every valid invoice request is formatted into the
  payload that the field mapping of the specification describes.
\<close>

theorem invoice_payload_follows_mapping:
  "formatted_invoice scenario_request = Inr scenario_payload
   \<and> map req_body
         (sent (snd (snd (create_invoice demo_env demo_client scenario_request demo_world))))
       = [FormBody [(''grant_type'', ''client_credentials''), (''scope'', ''workday_api'')],
          JsonBody scenario_payload]
   \<and> (valid_invoice invoice_data \<longrightarrow>
        formatted_invoice invoice_data = Inr (wire_invoice invoice_data))"
  using scenario_formatted formatted_invoice_valid
  by (simp add: scenario_created token_request_def)

theorem invoice_payload_follows_mapping_witness:
  "valid_invoice euro_request
   \<and> formatted_invoice euro_request = Inr (wire_invoice euro_request)
   \<and> wire_invoice euro_request = euro_payload"
proof -
  have v: "valid_invoice euro_request"
    by (simp add: valid_invoice_def euro_request_def)
  have w: "wire_invoice euro_request = euro_payload"
    by (simp add: wire_invoice_def euro_request_def euro_payload_def euro_line_def
        required_def optional_def)
  from v w invoice_payload_follows_mapping [of euro_request] show ?thesis by simp
qed

lemma invoice_lines_member:
  assumes "invoice_lines invoice_data idx items = Inr lines" and "line \<in> set lines"
  shows "\<exists>i<length items. invoice_line invoice_data (idx + i) (items ! i) = Inr line"
proof -
  from assms(2) obtain i where "i < length lines" "lines ! i = line"
    by (auto simp: in_set_conv_nth)
  with invoice_lines_Inr [OF assms(1)] show ?thesis by auto
qed

lemma invoice_line_currency:
  assumes "invoice_line invoice_data idx v = Inr line"
  shows "\<exists>a. field ''amount'' line = Some a \<and>
           field ''currency'' a = Some (get_default invoice_data ''currency'' (PStr ''USD''))"
  using invoice_line_Inr [OF assms] by auto

lemma invoice_line_ignores_item_currency:
  "invoice_line invoice_data idx (PDict ((''currency'', v) # item)) =
   invoice_line invoice_data idx (PDict item)"
  by (simp add: getitem_def get_default_def)

text \<open>
  C5. In every payload \<^verbatim>\<open>create_invoice\<close> builds, the currency of the invoice total and
  the currency of the amount of every line are the currency of the invoice (the
  \<^verbatim>\<open>currency\<close> entry of the request, \<^verbatim>\<open>USD\<close> without one). A \<^verbatim>\<open>currency\<close> entry of a line
  item is never read: adding one to an item changes nothing.
\<close>

theorem line_currency_is_invoice_currency:
  "(formatted_invoice invoice_data = Inr p \<longrightarrow>
      (\<exists>total lines.
         field ''invoiceTotal'' p = Some total \<and>
         field ''currency'' total = Some (get_default invoice_data ''currency'' (PStr ''USD'')) \<and>
         field ''invoiceLines'' p = Some (PList lines) \<and>
         (\<forall>line\<in>set lines. \<exists>a.
            field ''amount'' line = Some a \<and>
            field ''currency'' a = Some (get_default invoice_data ''currency'' (PStr ''USD'')))))
   \<and> invoice_line invoice_data idx (PDict ((''currency'', v) # item)) =
       invoice_line invoice_data idx (PDict item)"
proof (intro conjI impI)
  assume "formatted_invoice invoice_data = Inr p"
  from formatted_invoice_Inr [OF this] obtain supplier_id invoice_number invoice_date
      total_amount items lines where
    ls: "invoice_lines invoice_data 0 items = Inr lines" and
    p: "p = PDict
             [(''supplierReference'', supplier_id),
              (''invoiceNumber'', invoice_number),
              (''invoiceDate'', invoice_date),
              (''invoiceDescription'', get_default invoice_data ''description'' (PStr [])),
              (''invoiceTotal'', PDict
                 [(''amount'', total_amount),
                  (''currency'', get_default invoice_data ''currency'' (PStr ''USD''))]),
              (''invoiceLines'', PList lines)]"
    by blast
  have "\<forall>line\<in>set lines. \<exists>a.
            field ''amount'' line = Some a \<and>
            field ''currency'' a = Some (get_default invoice_data ''currency'' (PStr ''USD''))"
    using invoice_lines_member [OF ls] invoice_line_currency by blast
  with p show "\<exists>total lines.
         field ''invoiceTotal'' p = Some total \<and>
         field ''currency'' total = Some (get_default invoice_data ''currency'' (PStr ''USD'')) \<and>
         field ''invoiceLines'' p = Some (PList lines) \<and>
         (\<forall>line\<in>set lines. \<exists>a.
            field ''amount'' line = Some a \<and>
            field ''currency'' a = Some (get_default invoice_data ''currency'' (PStr ''USD'')))"
    by simp
qed (rule invoice_line_ignores_item_currency)

theorem line_currency_is_invoice_currency_witness:
  "formatted_invoice euro_request = Inr euro_payload
   \<and> get_default euro_request ''currency'' (PStr ''USD'') = PStr ''EUR''
   \<and> (\<exists>total lines.
         field ''invoiceTotal'' euro_payload = Some total \<and>
         field ''currency'' total = Some (PStr ''EUR'') \<and>
         field ''invoiceLines'' euro_payload = Some (PList lines) \<and>
         length lines = 3 \<and>
         list_all (\<lambda>line. \<exists>a. field ''amount'' line = Some a \<and>
                              field ''currency'' a = Some (PStr ''EUR'')) lines)"
proof -
  have c: "get_default euro_request ''currency'' (PStr ''USD'') = PStr ''EUR''"
    by (simp add: get_default_def euro_request_def)
  have l: "field ''invoiceLines'' euro_payload
             = Some (PList [euro_line 1 10 [], euro_line 2 20 [], euro_line 3 30 ''CC-1''])"
    by (simp add: euro_payload_def)
  from line_currency_is_invoice_currency [of euro_request euro_payload] euro_formatted c l
  show ?thesis by (auto simp: list_all_iff)
qed

text \<open>
  C6. In every payload \<^verbatim>\<open>create_invoice\<close> builds from \<open>n\<close> line items there are \<open>n\<close>
  lines, their \<^verbatim>\<open>lineNumber\<close> values are 1 to \<open>n\<close> in this order, and the line at
  position \<open>i\<close> is the one made from the item at position \<open>i\<close> of the input.
\<close>

theorem line_numbers_one_based:
  "formatted_invoice invoice_data = Inr p \<longrightarrow>
     (\<exists>line_items items lines.
        map_of invoice_data ''line_items'' = Some line_items \<and>
        py_iter line_items = Inr items \<and>
        field ''invoiceLines'' p = Some (PList lines) \<and>
        length lines = length items \<and>
        map (field ''lineNumber'') lines = map (\<lambda>i. Some (PInt (int i))) [1..<Suc (length items)] \<and>
        (\<forall>i<length items. invoice_line invoice_data i (items ! i) = Inr (lines ! i)))"
proof
  assume "formatted_invoice invoice_data = Inr p"
  from formatted_invoice_Inr [OF this] obtain line_items items lines where
    li: "map_of invoice_data ''line_items'' = Some line_items" and
    it: "py_iter line_items = Inr items" and
    ls: "invoice_lines invoice_data 0 items = Inr lines" and
    f: "field ''invoiceLines'' p = Some (PList lines)"
    by force
  from invoice_lines_Inr [OF ls] have
    len: "length lines = length items" and
    nth: "\<And>i. i < length items \<Longrightarrow> invoice_line invoice_data i (items ! i) = Inr (lines ! i)"
    by auto
  have num: "map (field ''lineNumber'') lines
               = map (\<lambda>i. Some (PInt (int i))) [1..<Suc (length items)]"
  proof (rule nth_equalityI)
    show "length (map (field ''lineNumber'') lines)
            = length (map (\<lambda>i. Some (PInt (int i))) [1..<Suc (length items)])"
      using len by (simp del: upt_Suc)
  next
    fix i assume "i < length (map (field ''lineNumber'') lines)"
    then have i: "i < length items" using len by simp
    from invoice_line_Inr [OF nth [OF i]]
    have "field ''lineNumber'' (lines ! i) = Some (PInt (int i + 1))" by auto
    moreover have "[1..<Suc (length items)] ! i = Suc i"
      using i by (simp add: nth_upt del: upt_Suc)
    ultimately show "map (field ''lineNumber'') lines ! i
            = map (\<lambda>i. Some (PInt (int i))) [1..<Suc (length items)] ! i"
      using i len by (simp del: upt_Suc)
  qed
  from li it f len num nth show "\<exists>line_items items lines.
        map_of invoice_data ''line_items'' = Some line_items \<and>
        py_iter line_items = Inr items \<and>
        field ''invoiceLines'' p = Some (PList lines) \<and>
        length lines = length items \<and>
        map (field ''lineNumber'') lines = map (\<lambda>i. Some (PInt (int i))) [1..<Suc (length items)] \<and>
        (\<forall>i<length items. invoice_line invoice_data i (items ! i) = Inr (lines ! i))"
    by blast
qed

theorem line_numbers_one_based_witness:
  "formatted_invoice euro_request = Inr euro_payload
   \<and> (\<exists>lines. field ''invoiceLines'' euro_payload = Some (PList lines) \<and>
        map (field ''lineNumber'') lines = [Some (PInt 1), Some (PInt 2), Some (PInt 3)] \<and>
        map (field ''costCenter'') lines = [Some (PStr []), Some (PStr []), Some (PStr ''CC-1'')])"
proof -
  have l: "field ''invoiceLines'' euro_payload
             = Some (PList [euro_line 1 10 [], euro_line 2 20 [], euro_line 3 30 ''CC-1''])"
    by (simp add: euro_payload_def)
  from line_numbers_one_based [of euro_request euro_payload] euro_formatted l
  show ?thesis by (simp add: euro_line_def)
qed




section \<open>Failures of the operations\<close>

lemma create_try_failure:
  assumes "\<not> json_type_error formatted"
    and "failure_cause (snd (respond E (sent w @ [create_request E c tok formatted]))) = Some e"
  shows "create_try E c tok invoice_data formatted w =
           (Inl e, snd (send E (create_request E c tok formatted) w))"
proof (cases "snd (respond E (sent w @ [create_request E c tok formatted]))")
  case (Raises m r)
  with assms show ?thesis by (auto simp: create_try_def send_eq)
next
  case (Responds resp)
  with assms have "raise_for_status resp = Inl e" by (simp split: sum.splits)
  with Responds assms(1) show ?thesis by (simp add: create_try_def send_eq)
qed

lemma status_try_failure:
  assumes "failure_cause (snd (respond E (sent w @ [status_request E c tok invoice_id]))) = Some e"
  shows "status_try E c tok invoice_id w =
           (Inl e, snd (send E (status_request E c tok invoice_id) w))"
proof (cases "snd (respond E (sent w @ [status_request E c tok invoice_id]))")
  case (Raises m r)
  with assms show ?thesis by (auto simp: status_try_def send_eq)
next
  case (Responds resp)
  with assms have "raise_for_status resp = Inl e" by (simp split: sum.splits)
  with Responds show ?thesis by (simp add: status_try_def send_eq)
qed

lemma payment_try_failure:
  assumes "\<not> json_type_error formatted"
    and "failure_cause
           (snd (respond E (sent w @ [payment_request E c tok invoice_id formatted]))) = Some e"
  shows "payment_try E c tok invoice_id formatted w =
           (Inl e, snd (send E (payment_request E c tok invoice_id formatted) w))"
proof (cases "snd (respond E (sent w @ [payment_request E c tok invoice_id formatted]))")
  case (Raises m r)
  with assms show ?thesis by (auto simp: payment_try_def send_eq)
next
  case (Responds resp)
  with assms have "raise_for_status resp = Inl e" by (simp split: sum.splits)
  with Responds assms(1) show ?thesis by (simp add: payment_try_def send_eq)
qed

lemma create_invoice_failure:
  assumes "get_auth_token E c w = (Inr tok, c1, w1)"
    and "formatted_invoice invoice_data = Inr formatted"
    and "\<not> json_type_error formatted"
    and "failure_cause (snd (respond E (sent w1 @ [create_request E c1 tok formatted])))
           = Some (RequestException m r)"
  shows "fst (create_invoice E c invoice_data w)
           = Inl (PyException (''Failed to create invoice in Workday: '' @ m))"
  using assms by (simp add: create_invoice_def create_try_failure create_except_def Let_def)

lemma get_invoice_status_failure:
  assumes "get_auth_token E c w = (Inr tok, c1, w1)"
    and "failure_cause (snd (respond E (sent w1 @ [status_request E c1 tok invoice_id])))
           = Some (RequestException m r)"
  shows "fst (get_invoice_status E c invoice_id w)
           = Inl (PyException (''Failed to get invoice status from Workday: '' @ m))"
  using assms by (simp add: get_invoice_status_def status_try_failure)

lemma update_invoice_payment_failure:
  assumes "get_auth_token E c w = (Inr tok, c1, w1)"
    and "formatted_payment payment_data = Inr formatted"
    and "\<not> json_type_error formatted"
    and "failure_cause
           (snd (respond E (sent w1 @ [payment_request E c1 tok invoice_id formatted])))
           = Some (RequestException m r)"
  shows "fst (update_invoice_payment E c invoice_id payment_data w)
           = Inl (PyException (''Failed to update invoice payment in Workday: '' @ m))"
  using assms by (simp add: update_invoice_payment_def payment_try_failure)

lemma create_invoice_invalid:
  assumes "get_auth_token E c w = (Inr tok, c1, w1)"
    and "formatted_invoice invoice_data = Inl e"
  shows "create_invoice E c invoice_data w = (Inl e, c1, w1)"
  using assms by (simp add: create_invoice_def)

lemma update_invoice_payment_invalid:
  assumes "get_auth_token E c w = (Inr tok, c1, w1)"
    and "formatted_payment payment_data = Inl e"
  shows "update_invoice_payment E c invoice_id payment_data w = (Inl e, c1, w1)"
  using assms by (simp add: update_invoice_payment_def)

text \<open>An exception of \<^verbatim>\<open>get_auth_token\<close> leaves each operation as it is.\<close>

lemma token_failure_surfaces:
  assumes "get_auth_token E c w = (Inl e, c1, w1)"
  shows "create_invoice E c invoice_data w = (Inl e, c1, w1)"
    and "get_invoice_status E c invoice_id w = (Inl e, c1, w1)"
    and "update_invoice_payment E c invoice_id payment_data w = (Inl e, c1, w1)"
  using assms
  by (simp_all add: create_invoice_def get_invoice_status_def update_invoice_payment_def)

text \<open>Among line items that are dictionaries, one without \<^verbatim>\<open>amount\<close> raises its \<^verbatim>\<open>KeyError\<close>.\<close>

lemma invoice_lines_missing_amount:
  assumes "list_all is_dict items" and "\<not> list_all valid_item items"
  shows "invoice_lines invoice_data idx items = Inl (KeyError ''amount'')"
  using assms
proof (induction items arbitrary: idx)
  case Nil
  then show ?case by simp
next
  case (Cons item rest)
  from Cons.prems(1) obtain d where d: "item = PDict d" by (cases item) auto
  show ?case
  proof (cases "map_of d ''amount''")
    case None
    with d show ?thesis by (simp add: getitem_def)
  next
    case (Some a)
    with d Cons.prems have "list_all is_dict rest" "\<not> list_all valid_item rest" by simp_all
    from Cons.IH [OF this, of "Suc idx"] d Some show ?thesis by (simp add: getitem_def)
  qed
qed

lemma formatted_invoice_missing_amount:
  assumes "map_of invoice_data ''supplier_id'' \<noteq> None"
    and "map_of invoice_data ''invoice_number'' \<noteq> None"
    and "map_of invoice_data ''invoice_date'' \<noteq> None"
    and "map_of invoice_data ''total_amount'' \<noteq> None"
    and "map_of invoice_data ''line_items'' = Some (PList items)"
    and "list_all is_dict items" and "\<not> list_all valid_item items"
  shows "formatted_invoice invoice_data = Inl (KeyError ''amount'')"
  using assms
  by (auto simp: formatted_invoice_def getitem_def invoice_lines_missing_amount)

text \<open>
  An operation returns normally only when every step before the \<^verbatim>\<open>return\<close> succeeded.
\<close>

lemma create_except_fst:
  "fst (create_except m r w) = PyException (''Failed to create invoice in Workday: '' @ m)"
  by (simp add: create_except_def Let_def)

lemma get_auth_token_Inr:
  assumes "fst (get_auth_token E c w) = Inr tok"
  shows "(token_cached c w = Inr True \<and> tok = token c) \<or>
         (token_cached c w = Inr False \<and>
          (\<exists>resp token_data expiry.
             snd (respond E (sent w @ [token_request c])) = Responds resp \<and>
             raise_for_status resp = Inr () \<and>
             json_body resp = Inr token_data \<and>
             py_getitem token_data ''access_token'' = Inr tok \<and>
             and_then (py_getitem token_data ''expires_in'')
               (add_timestamp (clock w + fst (respond E (sent w @ [token_request c]))))
               = Inr expiry))"
proof (cases "token_cached c w")
  case (Inl e)
  with assms show ?thesis by (simp add: get_auth_token_def)
next
  case (Inr b)
  show ?thesis
  proof (cases b)
    case True
    with Inr assms show ?thesis by (auto simp: get_auth_token_def)
  next
    case False
    show ?thesis
    proof (cases "snd (respond E (sent w @ [token_request c]))")
      case (Raises m r)
      with False Inr assms show ?thesis
        by (simp add: get_auth_token_def auth_try_def send_eq)
    next
      case (Responds resp)
      with False Inr assms show ?thesis
        by (auto simp: get_auth_token_def auth_try_def send_eq response_json_def
            and_then_Inr_iff
            split: sum.splits py_exc.splits)
    qed
  qed
qed

lemma create_invoice_Inr:
  assumes "fst (create_invoice E c invoice_data w) = Inr v"
  shows "\<exists>tok c1 w1 formatted resp.
           get_auth_token E c w = (Inr tok, c1, w1) \<and>
           formatted_invoice invoice_data = Inr formatted \<and>
           \<not> json_type_error formatted \<and>
           snd (respond E (sent w1 @ [create_request E c1 tok formatted])) = Responds resp \<and>
           raise_for_status resp = Inr () \<and>
           json_body resp = Inr v"
proof -
  obtain res c1 w1 where g: "get_auth_token E c w = (res, c1, w1)"
    by (cases "get_auth_token E c w") auto
  from assms g obtain tok where tok: "res = Inr tok"
    by (cases res) (auto simp: create_invoice_def)
  from assms g tok obtain formatted where f: "formatted_invoice invoice_data = Inr formatted"
    by (cases "formatted_invoice invoice_data") (auto simp: create_invoice_def)
  have j: "\<not> json_type_error formatted"
    using assms g tok f by (auto simp: create_invoice_def create_try_def)
  obtain resp where r: "snd (respond E (sent w1 @ [create_request E c1 tok formatted]))
                          = Responds resp"
    using assms g tok f j
    by (cases "snd (respond E (sent w1 @ [create_request E c1 tok formatted]))")
      (auto simp: create_invoice_def create_try_def send_eq create_except_fst)
  have "raise_for_status resp = Inr () \<and> json_body resp = Inr v"
    using assms g tok f j r raise_for_status_cases [of resp]
    by (auto simp: create_invoice_def create_try_def send_eq create_except_fst
        response_json_def split: sum.splits py_exc.splits)
  with g tok f j r show ?thesis by blast
qed

lemma get_invoice_status_Inr:
  assumes "fst (get_invoice_status E c invoice_id w) = Inr v"
  shows "\<exists>tok c1 w1 resp.
           get_auth_token E c w = (Inr tok, c1, w1) \<and>
           snd (respond E (sent w1 @ [status_request E c1 tok invoice_id])) = Responds resp \<and>
           raise_for_status resp = Inr () \<and>
           json_body resp = Inr v"
proof -
  obtain res c1 w1 where g: "get_auth_token E c w = (res, c1, w1)"
    by (cases "get_auth_token E c w") auto
  from assms g obtain tok where tok: "res = Inr tok"
    by (cases res) (auto simp: get_invoice_status_def)
  obtain resp where r: "snd (respond E (sent w1 @ [status_request E c1 tok invoice_id]))
                          = Responds resp"
    using assms g tok
    by (cases "snd (respond E (sent w1 @ [status_request E c1 tok invoice_id]))")
      (auto simp: get_invoice_status_def status_try_def send_eq)
  have "raise_for_status resp = Inr () \<and> json_body resp = Inr v"
    using assms g tok r raise_for_status_cases [of resp]
    by (auto simp: get_invoice_status_def status_try_def send_eq
        response_json_def split: sum.splits py_exc.splits)
  with g tok r show ?thesis by blast
qed

lemma update_invoice_payment_Inr:
  assumes "fst (update_invoice_payment E c invoice_id payment_data w) = Inr v"
  shows "\<exists>tok c1 w1 formatted resp.
           get_auth_token E c w = (Inr tok, c1, w1) \<and>
           formatted_payment payment_data = Inr formatted \<and>
           \<not> json_type_error formatted \<and>
           snd (respond E (sent w1 @ [payment_request E c1 tok invoice_id formatted]))
             = Responds resp \<and>
           raise_for_status resp = Inr () \<and>
           json_body resp = Inr v"
proof -
  obtain res c1 w1 where g: "get_auth_token E c w = (res, c1, w1)"
    by (cases "get_auth_token E c w") auto
  from assms g obtain tok where tok: "res = Inr tok"
    by (cases res) (auto simp: update_invoice_payment_def)
  from assms g tok obtain formatted where f: "formatted_payment payment_data = Inr formatted"
    by (cases "formatted_payment payment_data") (auto simp: update_invoice_payment_def)
  have j: "\<not> json_type_error formatted"
    using assms g tok f by (auto simp: update_invoice_payment_def payment_try_def)
  obtain resp where r: "snd (respond E (sent w1 @ [payment_request E c1 tok invoice_id formatted]))
                          = Responds resp"
    using assms g tok f j
    by (cases "snd (respond E (sent w1 @ [payment_request E c1 tok invoice_id formatted]))")
      (auto simp: update_invoice_payment_def payment_try_def send_eq)
  have "raise_for_status resp = Inr () \<and> json_body resp = Inr v"
    using assms g tok f j r raise_for_status_cases [of resp]
    by (auto simp: update_invoice_payment_def payment_try_def send_eq
        response_json_def split: sum.splits py_exc.splits)
  with g tok f j r show ?thesis by blast
qed

lemma outage_token:
  "get_auth_token outage_env demo_client demo_world
     = (Inr (PStr ''tok''), fresh_client, fresh_world)"
  by (simp add: demo_defs outage_env_def get_auth_token_def token_cached_def auth_try_def send_eq
      raise_for_status_def response_json_def getitem_def token_request_def expiry_4602
      del: add_timestamp.simps)

lemma redirect_token:
  "get_auth_token redirect_env demo_client demo_world
     = (Inr (PStr ''evil''),
        demo_client\<lparr>token := PStr ''evil'', token_expiry := PFloat 4602\<rparr>, fresh_world)"
  by (simp add: demo_defs redirect_env_def get_auth_token_def token_cached_def auth_try_def
      send_eq raise_for_status_def response_json_def getitem_def expiry_4602
      del: add_timestamp.simps)

lemma down_token:
  "get_auth_token down_env demo_client demo_world
     = (Inl (PyException ''Failed to authenticate with Workday: Connection refused''),
        demo_client,
        logger ERROR ''Authentication error: Connection refused''
          (snd (send down_env (token_request demo_client) demo_world)))"
  by (simp add: get_auth_token_failure token_cached_def demo_defs down_env_def)

lemma str_nat_500: "str_nat 500 = ''500''"
  by code_simp

lemma outage_cause:
  assumes "url req \<noteq> ''https://t.example.com/ccx/oauth2/token''"
  shows "failure_cause (snd (respond outage_env (sent fresh_world @ [req])))
           = Some (RequestException
                (''500 Server Error: Internal Server Error for url: '' @ url req)
                (Some \<lparr>status = 500, reason = ''Internal Server Error'',
                        resp_url = url req, body_text = ''upstream failure'',
                        json_body = Inl ''Expecting value''\<rparr>))"
  using assms by (simp add: outage_env_def raise_for_status_def str_nat_500)

lemma plain_formatted: "formatted_payment plain_payment = Inr plain_payload"
  by (simp add: formatted_payment_def getitem_def get_default_def plain_payment_def
      plain_payload_def)

lemma plain_encodable: "\<not> json_type_error plain_payload"
  by (simp add: json_type_error_def plain_payload_def)

lemma missing_invoice_key:
  assumes "get_auth_token E c w = (Inr tok, c1, w1)"
    and "k \<in> set invoice_required" and "map_of invoice_data k = None"
  shows "\<exists>k'\<in>set invoice_required. map_of invoice_data k' = None \<and>
           create_invoice E c invoice_data w = (Inl (KeyError k'), c1, w1)"
proof -
  from formatted_invoice_missing [OF assms(2,3)] obtain k' where
    k': "k' \<in> set invoice_required" "map_of invoice_data k' = None"
      "formatted_invoice invoice_data = Inl (KeyError k')"
    by blast
  from create_invoice_invalid [OF assms(1) k'(3)] k'(1,2) show ?thesis by blast
qed

lemma missing_payment_key:
  assumes "get_auth_token E c w = (Inr tok, c1, w1)"
    and "k \<in> set payment_required" and "map_of payment_data k = None"
  shows "\<exists>k'\<in>set payment_required. map_of payment_data k' = None \<and>
           update_invoice_payment E c invoice_id payment_data w = (Inl (KeyError k'), c1, w1)"
proof -
  from formatted_payment_missing [OF assms(2,3)] obtain k' where
    k': "k' \<in> set payment_required" "map_of payment_data k' = None"
      "formatted_payment payment_data = Inl (KeyError k')"
    by blast
  from update_invoice_payment_invalid [OF assms(1) k'(3)] k'(1,2) show ?thesis by blast
qed

lemma missing_line_amount:
  assumes "get_auth_token E c w = (Inr tok, c1, w1)"
    and "map_of invoice_data ''supplier_id'' \<noteq> None"
    and "map_of invoice_data ''invoice_number'' \<noteq> None"
    and "map_of invoice_data ''invoice_date'' \<noteq> None"
    and "map_of invoice_data ''total_amount'' \<noteq> None"
    and "map_of invoice_data ''line_items'' = Some (PList items)"
    and "list_all is_dict items" and "\<not> list_all valid_item items"
  shows "create_invoice E c invoice_data w = (Inl (KeyError ''amount''), c1, w1)"
  by (rule create_invoice_invalid [OF assms(1) formatted_invoice_missing_amount [OF assms(2-8)]])

text \<open>
  C3, as the code has it. No failure is swallowed, and none has a class of its own.
  A token request that fails with a transport error or with a status from 400 to 599
  raises a plain \<^verbatim>\<open>Exception\<close> whose message is \<^verbatim>\<open>Failed to authenticate with Workday: \<close>
  followed by \<^verbatim>\<open>str\<close> of the cause, and every exception of \<^verbatim>\<open>get_auth_token\<close> leaves the
  three other operations unchanged. Once \<^verbatim>\<open>get_auth_token\<close> has returned a token: a
  missing required key of the request, or a line item (among line items that are
  dictionaries) without \<^verbatim>\<open>amount\<close>, raises the \<^verbatim>\<open>KeyError\<close> of that key; and when the
  payload can be encoded, a transport error or a status from 400 to 599 of the
  invoice, status or payment request raises a plain \<^verbatim>\<open>Exception\<close> with the message of
  that operation followed by \<^verbatim>\<open>str\<close> of the cause. Conversely, an operation returns a
  value only if the token was obtained, the payload was built and encoded, the call
  returned a response that \<^verbatim>\<open>raise_for_status\<close> accepts, and its body was parsed.
\<close>

theorem failures_raise_plain_exceptions:
  "(token_cached c w = Inr False \<and>
    failure_cause (snd (respond E (sent w @ [token_request c]))) = Some (RequestException m r)
      \<longrightarrow> fst (get_auth_token E c w)
            = Inl (PyException (''Failed to authenticate with Workday: '' @ m)))
   \<and> (get_auth_token E c w = (Inr tok, c1, w1) \<and>
       formatted_invoice invoice_data = Inr formatted \<and>
       \<not> json_type_error formatted \<and>
       failure_cause (snd (respond E (sent w1 @ [create_request E c1 tok formatted])))
         = Some (RequestException m r)
      \<longrightarrow> fst (create_invoice E c invoice_data w)
            = Inl (PyException (''Failed to create invoice in Workday: '' @ m)))
   \<and> (get_auth_token E c w = (Inr tok, c1, w1) \<and>
       failure_cause (snd (respond E (sent w1 @ [status_request E c1 tok invoice_id])))
         = Some (RequestException m r)
      \<longrightarrow> fst (get_invoice_status E c invoice_id w)
            = Inl (PyException (''Failed to get invoice status from Workday: '' @ m)))
   \<and> (get_auth_token E c w = (Inr tok, c1, w1) \<and>
       formatted_payment payment_data = Inr paid \<and>
       \<not> json_type_error paid \<and>
       failure_cause (snd (respond E (sent w1 @ [payment_request E c1 tok invoice_id paid])))
         = Some (RequestException m r)
      \<longrightarrow> fst (update_invoice_payment E c invoice_id payment_data w)
            = Inl (PyException (''Failed to update invoice payment in Workday: '' @ m)))
   \<and> (get_auth_token E c w = (Inr tok, c1, w1) \<and>
       k \<in> set invoice_required \<and> map_of invoice_data k = None
      \<longrightarrow> (\<exists>k'\<in>set invoice_required. map_of invoice_data k' = None \<and>
             create_invoice E c invoice_data w = (Inl (KeyError k'), c1, w1)))
   \<and> (get_auth_token E c w = (Inr tok, c1, w1) \<and>
       kp \<in> set payment_required \<and> map_of payment_data kp = None
      \<longrightarrow> (\<exists>k'\<in>set payment_required. map_of payment_data k' = None \<and>
             update_invoice_payment E c invoice_id payment_data w = (Inl (KeyError k'), c1, w1)))
   \<and> (get_auth_token E c w = (Inr tok, c1, w1) \<and>
       map_of invoice_data ''supplier_id'' \<noteq> None \<and>
       map_of invoice_data ''invoice_number'' \<noteq> None \<and>
       map_of invoice_data ''invoice_date'' \<noteq> None \<and>
       map_of invoice_data ''total_amount'' \<noteq> None \<and>
       map_of invoice_data ''line_items'' = Some (PList items) \<and>
       list_all is_dict items \<and> \<not> list_all valid_item items
      \<longrightarrow> create_invoice E c invoice_data w = (Inl (KeyError ''amount''), c1, w1))
   \<and> (get_auth_token E c w = (Inl e, c1, w1)
      \<longrightarrow> create_invoice E c invoice_data w = (Inl e, c1, w1)
          \<and> get_invoice_status E c invoice_id w = (Inl e, c1, w1)
          \<and> update_invoice_payment E c invoice_id payment_data w = (Inl e, c1, w1))
   \<and> (fst (get_auth_token E c w) = Inr tok
      \<longrightarrow> (token_cached c w = Inr True \<and> tok = token c) \<or>
          (token_cached c w = Inr False \<and>
           (\<exists>resp token_data expiry.
              snd (respond E (sent w @ [token_request c])) = Responds resp \<and>
              raise_for_status resp = Inr () \<and>
              json_body resp = Inr token_data \<and>
              py_getitem token_data ''access_token'' = Inr tok \<and>
              and_then (py_getitem token_data ''expires_in'')
                (add_timestamp (clock w + fst (respond E (sent w @ [token_request c]))))
                = Inr expiry)))
   \<and> (fst (create_invoice E c invoice_data w) = Inr v
      \<longrightarrow> (\<exists>tok c1 w1 formatted resp.
             get_auth_token E c w = (Inr tok, c1, w1) \<and>
             formatted_invoice invoice_data = Inr formatted \<and>
             \<not> json_type_error formatted \<and>
             snd (respond E (sent w1 @ [create_request E c1 tok formatted])) = Responds resp \<and>
             raise_for_status resp = Inr () \<and>
             json_body resp = Inr v))
   \<and> (fst (get_invoice_status E c invoice_id w) = Inr v
      \<longrightarrow> (\<exists>tok c1 w1 resp.
             get_auth_token E c w = (Inr tok, c1, w1) \<and>
             snd (respond E (sent w1 @ [status_request E c1 tok invoice_id])) = Responds resp \<and>
             raise_for_status resp = Inr () \<and>
             json_body resp = Inr v))
   \<and> (fst (update_invoice_payment E c invoice_id payment_data w) = Inr v
      \<longrightarrow> (\<exists>tok c1 w1 formatted resp.
             get_auth_token E c w = (Inr tok, c1, w1) \<and>
             formatted_payment payment_data = Inr formatted \<and>
             \<not> json_type_error formatted \<and>
             snd (respond E (sent w1 @ [payment_request E c1 tok invoice_id formatted]))
               = Responds resp \<and>
             raise_for_status resp = Inr () \<and>
             json_body resp = Inr v))"
  apply (intro conjI)
  subgoal by (intro impI, elim conjE) (simp add: get_auth_token_failure)
  subgoal by (intro impI, elim conjE) (rule create_invoice_failure; assumption)
  subgoal by (intro impI, elim conjE) (rule get_invoice_status_failure; assumption)
  subgoal by (intro impI, elim conjE) (rule update_invoice_payment_failure; assumption)
  subgoal by (intro impI, elim conjE) (rule missing_invoice_key; assumption)
  subgoal by (intro impI, elim conjE) (rule missing_payment_key; assumption)
  subgoal by (intro impI, elim conjE) (rule missing_line_amount; assumption)
  subgoal by (intro impI) (simp add: token_failure_surfaces)
  subgoal by (intro impI) (rule get_auth_token_Inr)
  subgoal by (intro impI) (rule create_invoice_Inr)
  subgoal by (intro impI) (rule get_invoice_status_Inr)
  subgoal by (intro impI) (rule update_invoice_payment_Inr)
  done

text \<open>
  The claim as the specification words it fails. With the network down the token
  request raises \<^verbatim>\<open>Exception\<close>, not an \<^verbatim>\<open>AuthenticationError\<close>; with the invoice
  endpoints answering 500 the three operations raise \<^verbatim>\<open>Exception\<close> as well, not three
  classes of their own; a request without \<^verbatim>\<open>supplier_id\<close> raises \<^verbatim>\<open>KeyError\<close>, not a
  \<^verbatim>\<open>ValidationError\<close>. And a status outside 2xx is not always a failure: against the
  server that answers 300, \<^verbatim>\<open>get_invoice_status\<close> raises nothing, logs nothing and
  returns the body of the response.
\<close>

theorem failures_are_not_typed:
  "raised_type (get_auth_token down_env demo_client demo_world) = Some ''Exception''
   \<and> raised_type (get_auth_token down_env demo_client demo_world) \<noteq> Some ''AuthenticationError''
   \<and> raised_type (create_invoice outage_env demo_client scenario_request demo_world)
       = Some ''Exception''
   \<and> raised_type (get_invoice_status outage_env demo_client (PStr ''WID-7'') demo_world)
       = Some ''Exception''
   \<and> raised_type (update_invoice_payment outage_env demo_client (PStr ''WID-7'') plain_payment
         demo_world) = Some ''Exception''
   \<and> raised_type (create_invoice demo_env demo_client no_supplier demo_world) = Some ''KeyError''
   \<and> raised_type (create_invoice demo_env demo_client no_supplier demo_world)
       \<noteq> Some ''ValidationError''
   \<and> answered_status (snd (respond redirect_env (sent (snd (snd
         (get_invoice_status redirect_env demo_client (PStr ''WID-7'') demo_world))))))
       = Some 300
   \<and> raised_type (get_invoice_status redirect_env demo_client (PStr ''WID-7'') demo_world) = None
   \<and> fst (get_invoice_status redirect_env demo_client (PStr ''WID-7'') demo_world)
       = Inr (PDict [(''access_token'', PStr ''evil''), (''expires_in'', PInt 3600)])
   \<and> log_records (snd (snd
         (get_invoice_status redirect_env demo_client (PStr ''WID-7'') demo_world))) = []"
proof -
  have a: "fst (get_auth_token down_env demo_client demo_world)
             = Inl (PyException ''Failed to authenticate with Workday: Connection refused'')"
    by (simp add: down_token)
  have u: "url (create_request outage_env fresh_client (PStr ''tok'') scenario_payload)
             \<noteq> ''https://t.example.com/ccx/oauth2/token''"
    "url (status_request outage_env fresh_client (PStr ''tok'') (PStr ''WID-7''))
             \<noteq> ''https://t.example.com/ccx/oauth2/token''"
    "url (payment_request outage_env fresh_client (PStr ''tok'') (PStr ''WID-7'') plain_payload)
             \<noteq> ''https://t.example.com/ccx/oauth2/token''"
    by (simp_all add: create_request_def status_request_def payment_request_def invoices_url_def
        demo_defs py_str_def)
  have b: "\<exists>m. fst (create_invoice outage_env demo_client scenario_request demo_world)
             = Inl (PyException m)"
    using create_invoice_failure
      [OF outage_token scenario_formatted scenario_encodable outage_cause [OF u(1)]]
    by blast
  have c: "\<exists>m. fst (get_invoice_status outage_env demo_client (PStr ''WID-7'') demo_world)
             = Inl (PyException m)"
    using get_invoice_status_failure [OF outage_token outage_cause [OF u(2)]] by blast
  have d: "\<exists>m. fst (update_invoice_payment outage_env demo_client (PStr ''WID-7'') plain_payment
             demo_world) = Inl (PyException m)"
    using update_invoice_payment_failure
      [OF outage_token plain_formatted plain_encodable outage_cause [OF u(3)]]
    by blast
  have e: "create_invoice demo_env demo_client no_supplier demo_world
             = (Inl (KeyError ''supplier_id''), fresh_client, fresh_world)"
    by (simp add: create_invoice_invalid [OF demo_token] formatted_invoice_def getitem_def
        no_supplier_def)
  have r: "\<And>reqs. respond redirect_env reqs =
             (2, Responds \<lparr>status = 300, reason = ''Multiple Choices'',
                            resp_url = url (last reqs), body_text = [],
                            json_body = Inr (PDict [(''access_token'', PStr ''evil''),
                                                    (''expires_in'', PInt 3600)])\<rparr>)"
    by (simp add: redirect_env_def)
  have f: "get_invoice_status redirect_env demo_client (PStr ''WID-7'') demo_world =
             (Inr (PDict [(''access_token'', PStr ''evil''), (''expires_in'', PInt 3600)]),
              demo_client\<lparr>token := PStr ''evil'', token_expiry := PFloat 4602\<rparr>,
              snd (send redirect_env
                (status_request redirect_env
                   (demo_client\<lparr>token := PStr ''evil'', token_expiry := PFloat 4602\<rparr>)
                   (PStr ''evil'') (PStr ''WID-7''))
                fresh_world))"
    by (simp add: get_invoice_status_def redirect_token status_try_def send_eq r
        raise_for_status_def response_json_def)
  have g: "log_records (snd (snd
             (get_invoice_status redirect_env demo_client (PStr ''WID-7'') demo_world))) = []"
    unfolding f by (simp add: send_eq fresh_world_def demo_world_def)
  have h: "answered_status (snd (respond redirect_env (sent (snd (snd
         (get_invoice_status redirect_env demo_client (PStr ''WID-7'') demo_world))))))
       = Some 300"
    by (simp add: r)
  from a b c d e f g h show ?thesis by (auto simp: raised_type_def)
qed

theorem failures_raise_plain_exceptions_witness:
  "token_cached demo_client demo_world = Inr False
   \<and> failure_cause (snd (respond down_env (sent demo_world @ [token_request demo_client])))
       = Some (RequestException ''Connection refused'' None)
   \<and> fst (get_auth_token down_env demo_client demo_world)
       = Inl (PyException ''Failed to authenticate with Workday: Connection refused'')
   \<and> fst (create_invoice down_env demo_client scenario_request demo_world)
       = Inl (PyException ''Failed to authenticate with Workday: Connection refused'')
   \<and> get_auth_token outage_env demo_client demo_world
       = (Inr (PStr ''tok''), fresh_client, fresh_world)
   \<and> formatted_invoice scenario_request = Inr scenario_payload
   \<and> \<not> json_type_error scenario_payload
   \<and> fst (create_invoice outage_env demo_client scenario_request demo_world)
       = Inl (PyException (''Failed to create invoice in Workday: 500 Server Error: ''
            @ ''Internal Server Error for url: https://t.example.com''
            @ ''/api/v1/financial-management/suppliers/invoices''))
   \<and> fst (get_invoice_status outage_env demo_client (PStr ''WID-7'') demo_world)
       = Inl (PyException (''Failed to get invoice status from Workday: 500 Server Error: ''
            @ ''Internal Server Error for url: https://t.example.com''
            @ ''/api/v1/financial-management/suppliers/invoices/WID-7''))
   \<and> fst (update_invoice_payment outage_env demo_client (PStr ''WID-7'') plain_payment demo_world)
       = Inl (PyException (''Failed to update invoice payment in Workday: 500 Server Error: ''
            @ ''Internal Server Error for url: https://t.example.com''
            @ ''/api/v1/financial-management/suppliers/invoices/WID-7/payments''))
   \<and> ''supplier_id'' \<in> set invoice_required \<and> map_of no_supplier ''supplier_id'' = None
   \<and> create_invoice outage_env demo_client no_supplier demo_world
       = (Inl (KeyError ''supplier_id''), fresh_client, fresh_world)
   \<and> ''amount'' \<in> set payment_required \<and> map_of no_amount ''amount'' = None
   \<and> update_invoice_payment outage_env demo_client (PStr ''WID-7'') no_amount demo_world
       = (Inl (KeyError ''amount''), fresh_client, fresh_world)
   \<and> create_invoice outage_env demo_client no_line_amount demo_world
       = (Inl (KeyError ''amount''), fresh_client, fresh_world)
   \<and> fst (create_invoice demo_env demo_client scenario_request demo_world)
       = Inr (PDict [(''access_token'', PStr ''tok''), (''expires_in'', PInt 3600)])"
proof -
  have u: "url (create_request outage_env fresh_client (PStr ''tok'') scenario_payload)
             = ''https://t.example.com/api/v1/financial-management/suppliers/invoices''"
    "url (status_request outage_env fresh_client (PStr ''tok'') (PStr ''WID-7''))
             = ''https://t.example.com/api/v1/financial-management/suppliers/invoices/WID-7''"
    "url (payment_request outage_env fresh_client (PStr ''tok'') (PStr ''WID-7'') plain_payload)
             = ''https://t.example.com/api/v1/financial-management/suppliers/invoices/WID-7/payments''"
    by (simp_all add: create_request_def status_request_def payment_request_def invoices_url_def
        demo_defs py_str_def)
  have c0: "token_cached demo_client demo_world = Inr False"
    by (simp add: token_cached_def demo_defs)
  have f0: "failure_cause (snd (respond down_env (sent demo_world @ [token_request demo_client])))
       = Some (RequestException ''Connection refused'' None)"
    by (simp add: down_env_def)
  have m: "''supplier_id'' \<in> set invoice_required" "map_of no_supplier ''supplier_id'' = None"
    "''amount'' \<in> set payment_required" "map_of no_amount ''amount'' = None"
    by (simp_all add: invoice_required_def payment_required_def no_supplier_def no_amount_def)
  have i: "formatted_invoice no_supplier = Inl (KeyError ''supplier_id'')"
    by (simp add: formatted_invoice_def getitem_def no_supplier_def)
  have p: "formatted_payment no_amount = Inl (KeyError ''amount'')"
    by (simp add: formatted_payment_def getitem_def no_amount_def)
  have n: "map_of no_line_amount ''supplier_id'' \<noteq> None"
    "map_of no_line_amount ''invoice_number'' \<noteq> None"
    "map_of no_line_amount ''invoice_date'' \<noteq> None"
    "map_of no_line_amount ''total_amount'' \<noteq> None"
    "map_of no_line_amount ''line_items'' = Some (PList [PDict [(''description'', PStr ''paper'')]])"
    "list_all is_dict [PDict [(''description'', PStr ''paper'')]]"
    "\<not> list_all valid_item [PDict [(''description'', PStr ''paper'')]]"
    by (simp_all add: no_line_amount_def)
  note t1 = failures_raise_plain_exceptions
    [where c = demo_client and w = demo_world and E = down_env and m = "''Connection refused''"
       and r = None and invoice_data = scenario_request
       and e = "PyException ''Failed to authenticate with Workday: Connection refused''"
       and ?c1.0 = demo_client
       and ?w1.0 = "logger ERROR ''Authentication error: Connection refused''
          (snd (send down_env (token_request demo_client) demo_world))"]
  note t2 = failures_raise_plain_exceptions
    [where c = demo_client and w = demo_world and E = outage_env and tok = "PStr ''tok''"
       and ?c1.0 = fresh_client and ?w1.0 = fresh_world
       and invoice_data = scenario_request and formatted = scenario_payload
       and invoice_id = "PStr ''WID-7''" and payment_data = plain_payment
       and paid = plain_payload]
  note t3 = failures_raise_plain_exceptions
    [where c = demo_client and w = demo_world and E = outage_env and tok = "PStr ''tok''"
       and ?c1.0 = fresh_client and ?w1.0 = fresh_world
       and invoice_data = no_line_amount
       and items = "[PDict [(''description'', PStr ''paper'')]]"]
  have a: "fst (get_auth_token down_env demo_client demo_world)
       = Inl (PyException ''Failed to authenticate with Workday: Connection refused'')"
    using t1 c0 f0 by simp
  have a': "fst (create_invoice down_env demo_client scenario_request demo_world)
       = Inl (PyException ''Failed to authenticate with Workday: Connection refused'')"
    using t1 down_token by simp
  have b: "fst (create_invoice outage_env demo_client scenario_request demo_world)
       = Inl (PyException (''Failed to create invoice in Workday: 500 Server Error: ''
            @ ''Internal Server Error for url: https://t.example.com''
            @ ''/api/v1/financial-management/suppliers/invoices''))"
    using t2 outage_token scenario_formatted scenario_encodable
      outage_cause [of "create_request outage_env fresh_client (PStr ''tok'') scenario_payload"]
    by (simp add: u)
  have c: "fst (get_invoice_status outage_env demo_client (PStr ''WID-7'') demo_world)
       = Inl (PyException (''Failed to get invoice status from Workday: 500 Server Error: ''
            @ ''Internal Server Error for url: https://t.example.com''
            @ ''/api/v1/financial-management/suppliers/invoices/WID-7''))"
    using t2 outage_token
      outage_cause [of "status_request outage_env fresh_client (PStr ''tok'') (PStr ''WID-7'')"]
    by (simp add: u)
  have d: "fst (update_invoice_payment outage_env demo_client (PStr ''WID-7'') plain_payment
             demo_world)
       = Inl (PyException (''Failed to update invoice payment in Workday: 500 Server Error: ''
            @ ''Internal Server Error for url: https://t.example.com''
            @ ''/api/v1/financial-management/suppliers/invoices/WID-7/payments''))"
    using t2 outage_token plain_formatted plain_encodable
      outage_cause [of "payment_request outage_env fresh_client (PStr ''tok'') (PStr ''WID-7'')
         plain_payload"]
    by (simp add: u)
  have e: "create_invoice outage_env demo_client no_supplier demo_world
       = (Inl (KeyError ''supplier_id''), fresh_client, fresh_world)"
    using create_invoice_invalid [OF outage_token i] .
  have f: "update_invoice_payment outage_env demo_client (PStr ''WID-7'') no_amount demo_world
       = (Inl (KeyError ''amount''), fresh_client, fresh_world)"
    using update_invoice_payment_invalid [OF outage_token p] .
  have g: "create_invoice outage_env demo_client no_line_amount demo_world
       = (Inl (KeyError ''amount''), fresh_client, fresh_world)"
    using t3 outage_token n by simp
  have h: "fst (create_invoice demo_env demo_client scenario_request demo_world)
       = Inr (PDict [(''access_token'', PStr ''tok''), (''expires_in'', PInt 3600)])"
    by (simp add: scenario_created)
  from c0 f0 a a' outage_token scenario_formatted scenario_encodable b c d m e f g h
  show ?thesis by simp
qed

section \<open>What reaches the log\<close>








lemma raises_supplies:
  shows "m \<in> set (outcome_messages (Raises m r))"
    and "r = Some resp' \<Longrightarrow> body_text resp' \<in> set (outcome_bodies (Raises m r))"
  by auto
















end
